theory Spec2Isabelle
  imports Main "HOL-Library.Word"
begin

unbundle bit_operations_syntax

section \<open>Platform types and constants\<close>

text \<open>
  The driver is built for 64-bit Windows: pointers are cast to \<open>UINT64\<close> in
  \<open>ElevateProcess\<close> and \<open>SetProcessSignature\<close>, so \<open>sizeof(INT_PTR)\<close> is 8.
  \<open>ULONG\<close> and \<open>UINT32\<close> are 32 bits wide, \<open>NTSTATUS\<close> is a signed 32-bit
  value, \<open>UCHAR\<close> is one byte.
\<close>

type_synonym ULONG = "32 word"
type_synonym NTSTATUS = "32 word"
type_synonym UINT64 = "64 word"
type_synonym UCHAR = "8 word"
type_synonym addr = "64 word"
type_synonym ACCESS_MASK = "32 word"

text \<open>The four access rights the header of the source defines itself.\<close>

definition SYSTEM_PROCESS_PID :: ULONG where
  "SYSTEM_PROCESS_PID = 0x4"

definition PROCESS_TERMINATE :: ACCESS_MASK where
  "PROCESS_TERMINATE = 0x1"

definition PROCESS_CREATE_THREAD :: ACCESS_MASK where
  "PROCESS_CREATE_THREAD = 0x2"

definition PROCESS_VM_READ :: ACCESS_MASK where
  "PROCESS_VM_READ = 0x10"

definition PROCESS_VM_OPERATION :: ACCESS_MASK where
  "PROCESS_VM_OPERATION = 0x8"

text \<open>
  Modelled from the spec: the handle-duplication right. The macro
  \<open>PROCESS_DUP_HANDLE\<close> comes from the platform headers behind \<open>pch.h\<close>, which are
  not part of the sources; the value is the one of the Windows SDK.
\<close>

definition PROCESS_DUP_HANDLE :: ACCESS_MASK where
  "PROCESS_DUP_HANDLE = 0x40"

text \<open>
  Modelled from the spec: the success status and the reserved unsuccessful status.
  \<open>STATUS_SUCCESS\<close>, \<open>STATUS_UNSUCCESSFUL\<close> and the macro \<open>NT_SUCCESS\<close> come from
  the platform headers behind \<open>pch.h\<close>; the values are the ones of the Windows
  Driver Kit: a status is a success when it is not negative as a signed number.
\<close>

definition STATUS_SUCCESS :: NTSTATUS where
  "STATUS_SUCCESS = 0"

definition STATUS_UNSUCCESSFUL :: NTSTATUS where
  "STATUS_UNSUCCESSFUL = 0xC0000001"

definition NT_SUCCESS :: "NTSTATUS \<Rightarrow> bool" where
  "NT_SUCCESS status \<longleftrightarrow> 0 \<le> sint status"

text \<open>\<open>OB_PREOP_SUCCESS\<close> is the only value of its enumeration the source uses.\<close>

datatype OB_PREOP_CALLBACK_STATUS = OB_PREOP_SUCCESS

definition sizeof_INT_PTR :: nat where
  "sizeof_INT_PTR = 8"


section \<open>The registry of protected processes\<close>

text \<open>
  \<open>pGlobals.ProtectedProcesses\<close>: a counter and an array of \<open>MAX_PIDS\<close> identifiers.
  The constant \<open>MAX_PIDS\<close> is not defined in the sources; it is the length of the list
  \<open>Processes\<close>, which no operation changes. The declared type of \<open>PidsCount\<close> is not
  in the sources either: it is an unbounded integer here, every operation moves it by one.
  A read of \<open>Processes[i]\<close> with \<open>i\<close> beyond the array is undefined behaviour in
  the source; the model returns \<open>None\<close> there.
\<close>

record ProtectedProcessesList =
  PidsCount :: int
  Processes :: "ULONG list"

definition empty_registry :: "nat \<Rightarrow> ProtectedProcessesList" where
  "empty_registry MAX_PIDS = \<lparr>PidsCount = 0, Processes = replicate MAX_PIDS 0\<rparr>"

text \<open>The loop of \<open>FindProcess\<close>, from index \<open>i\<close> on.\<close>

function FindProcess_from :: "nat \<Rightarrow> ProtectedProcessesList \<Rightarrow> ULONG \<Rightarrow> bool option" where
  "FindProcess_from i g pid =
     (if int i < PidsCount g then
        (if i < length (Processes g) then
           (if Processes g ! i = pid then Some True
            else FindProcess_from (Suc i) g pid)
         else None)
      else Some False)"
  by pat_completeness auto
termination
  by (relation "measure (\<lambda>(i, g, pid). length (Processes g) - i)") auto

declare FindProcess_from.simps [simp del]

definition FindProcess :: "ProtectedProcessesList \<Rightarrow> ULONG \<Rightarrow> bool option" where
  "FindProcess g pid = FindProcess_from 0 g pid"

text \<open>The loop of \<open>AddProcess\<close>: the first free slot among all \<open>MAX_PIDS\<close> slots.\<close>

function AddProcess_from ::
  "nat \<Rightarrow> ProtectedProcessesList \<Rightarrow> ULONG \<Rightarrow> bool \<times> ProtectedProcessesList" where
  "AddProcess_from i g pid =
     (if i < length (Processes g) then
        (if Processes g ! i = 0 then
           (True, g\<lparr>Processes := (Processes g)[i := pid], PidsCount := PidsCount g + 1\<rparr>)
         else AddProcess_from (Suc i) g pid)
      else (False, g))"
  by pat_completeness auto
termination
  by (relation "measure (\<lambda>(i, g, pid). length (Processes g) - i)") auto

declare AddProcess_from.simps [simp del]

definition AddProcess :: "ProtectedProcessesList \<Rightarrow> ULONG \<Rightarrow> bool \<times> ProtectedProcessesList" where
  "AddProcess g pid = AddProcess_from 0 g pid"

text \<open>The loop of \<open>RemoveProcess\<close>: the first match among the first \<open>PidsCount\<close> slots.\<close>

function RemoveProcess_from ::
  "nat \<Rightarrow> ProtectedProcessesList \<Rightarrow> ULONG \<Rightarrow> (bool \<times> ProtectedProcessesList) option" where
  "RemoveProcess_from i g pid =
     (if int i < PidsCount g then
        (if i < length (Processes g) then
           (if Processes g ! i = pid then
              Some (True, g\<lparr>Processes := (Processes g)[i := 0], PidsCount := PidsCount g - 1\<rparr>)
            else RemoveProcess_from (Suc i) g pid)
         else None)
      else Some (False, g))"
  by pat_completeness auto
termination
  by (relation "measure (\<lambda>(i, g, pid). length (Processes g) - i)") auto

declare RemoveProcess_from.simps [simp del]

definition RemoveProcess ::
  "ProtectedProcessesList \<Rightarrow> ULONG \<Rightarrow> (bool \<times> ProtectedProcessesList) option" where
  "RemoveProcess g pid = RemoveProcess_from 0 g pid"

text \<open>A sequence of registry requests, run from left to right.\<close>

datatype request = Add ULONG | Remove ULONG

fun run_requests ::
  "ProtectedProcessesList \<Rightarrow> request list \<Rightarrow> ProtectedProcessesList option" where
  "run_requests g [] = Some g"
| "run_requests g (Add pid # rs) = run_requests (snd (AddProcess g pid)) rs"
| "run_requests g (Remove pid # rs) =
     (case RemoveProcess g pid of None \<Rightarrow> None | Some (ok, g') \<Rightarrow> run_requests g' rs)"

text \<open>The number of slots that hold an identifier.\<close>

definition occupied :: "ProtectedProcessesList \<Rightarrow> nat" where
  "occupied g = length (filter (\<lambda>p. p \<noteq> 0) (Processes g))"


section \<open>The access filter\<close>

text \<open>
  The fields of \<open>OB_PRE_OPERATION_INFORMATION\<close> the callback reads and writes.
  \<open>PsGetProcessId\<close> is a kernel routine: it is a parameter, and \<open>HandleToULong\<close>
  keeps the low 32 bits of the handle. The scoped lock on \<open>pGlobals.Lock\<close> guards the
  registry against other threads and has no effect on the result.
\<close>

record OB_PRE_OPERATION_INFORMATION =
  KernelHandle :: bool
  Object :: addr
  DesiredAccess :: ACCESS_MASK

definition HandleToULong :: "UINT64 \<Rightarrow> ULONG" where
  "HandleToULong h = ucast h"

definition OnPreOpenProcess ::
  "(addr \<Rightarrow> UINT64) \<Rightarrow> ProtectedProcessesList \<Rightarrow> OB_PRE_OPERATION_INFORMATION \<Rightarrow>
   (OB_PREOP_CALLBACK_STATUS \<times> OB_PRE_OPERATION_INFORMATION) option" where
  "OnPreOpenProcess PsGetProcessId g Info =
     (if KernelHandle Info then Some (OB_PREOP_SUCCESS, Info)
      else if PidsCount g = 0 then Some (OB_PREOP_SUCCESS, Info)
      else
        (let Process = Object Info;
             pid = HandleToULong (PsGetProcessId Process)
         in case FindProcess g pid of
              None \<Rightarrow> None
            | Some found \<Rightarrow>
                if found then
                  (let a1 = DesiredAccess Info AND NOT PROCESS_VM_OPERATION;
                       a2 = a1 AND NOT PROCESS_VM_READ;
                       a3 = a2 AND NOT PROCESS_CREATE_THREAD;
                       a4 = a3 AND NOT PROCESS_DUP_HANDLE;
                       a5 = a4 AND NOT PROCESS_TERMINATE
                   in Some (OB_PREOP_SUCCESS, Info\<lparr>DesiredAccess := a5\<rparr>))
                else Some (OB_PREOP_SUCCESS, Info)))"


section \<open>Offset resolution\<close>

text \<open>
  The build numbers \<open>WIN_1507\<close> ... \<open>WIN_1909\<close> are macros of a header that is not among
  the sources: they are parameters here, one record field each. They label the cases of
  one \<open>switch\<close>, so the compiler accepts the source only when they differ pairwise.
\<close>

record win_builds =
  WIN_1507 :: ULONG
  WIN_1511 :: ULONG
  WIN_1607 :: ULONG
  WIN_1703 :: ULONG
  WIN_1709 :: ULONG
  WIN_1803 :: ULONG
  WIN_1809 :: ULONG
  WIN_1903 :: ULONG
  WIN_1909 :: ULONG

definition recognized :: "win_builds \<Rightarrow> ULONG list" where
  "recognized W = [WIN_1507 W, WIN_1511 W, WIN_1607 W, WIN_1703 W, WIN_1709 W,
                   WIN_1803 W, WIN_1809 W, WIN_1903 W, WIN_1909 W]"

text \<open>The build numbers of the Windows 10 releases, as a sample of such macros.\<close>

definition windows10 :: win_builds where
  "windows10 = \<lparr>WIN_1507 = 10240, WIN_1511 = 10586, WIN_1607 = 14393, WIN_1703 = 15063,
                WIN_1709 = 16299, WIN_1803 = 17134, WIN_1809 = 17763, WIN_1903 = 18362,
                WIN_1909 = 18363\<rparr>"

text \<open>
  \<open>RtlGetVersion\<close> is a kernel routine: its outcome, the status and the
  \<open>dwBuildNumber\<close> it stored, is an input of every resolution function.
\<close>

type_synonym version_query = "NTSTATUS \<times> ULONG"

definition GetActiveProcessLinksOffset :: "win_builds \<Rightarrow> version_query \<Rightarrow> ULONG" where
  "GetActiveProcessLinksOffset W osVersion =
     (let activeProcessLinks = STATUS_UNSUCCESSFUL;
          result = fst osVersion;
          dwBuildNumber = snd osVersion
      in if NT_SUCCESS result then
           (if dwBuildNumber = WIN_1507 W \<or> dwBuildNumber = WIN_1511 W \<or>
               dwBuildNumber = WIN_1607 W \<or> dwBuildNumber = WIN_1903 W \<or>
               dwBuildNumber = WIN_1909 W then 0x2f0
            else if dwBuildNumber = WIN_1703 W \<or> dwBuildNumber = WIN_1709 W \<or>
               dwBuildNumber = WIN_1803 W \<or> dwBuildNumber = WIN_1809 W then 0x2e8
            else 0x448)
         else activeProcessLinks)"

definition GetProcessLock :: "win_builds \<Rightarrow> version_query \<Rightarrow> ULONG" where
  "GetProcessLock W osVersion =
     (let processLock = STATUS_UNSUCCESSFUL;
          result = fst osVersion;
          dwBuildNumber = snd osVersion
      in if NT_SUCCESS result then
           (if dwBuildNumber = WIN_1507 W \<or> dwBuildNumber = WIN_1511 W \<or>
               dwBuildNumber = WIN_1607 W \<or> dwBuildNumber = WIN_1703 W \<or>
               dwBuildNumber = WIN_1709 W \<or> dwBuildNumber = WIN_1803 W \<or>
               dwBuildNumber = WIN_1809 W then 0x2d8
            else if dwBuildNumber = WIN_1903 W \<or> dwBuildNumber = WIN_1909 W then 0x2e0
            else 0x438)
         else processLock)"

text \<open>
  \<open>(UINT64)STATUS_UNSUCCESSFUL\<close> converts a negative 32-bit value to 64 bits: the sign
  is extended.
\<close>

definition GetTokenOffset :: "win_builds \<Rightarrow> version_query \<Rightarrow> UINT64" where
  "GetTokenOffset W osVersion =
     (let tokenOffset = (scast STATUS_UNSUCCESSFUL :: UINT64);
          result = fst osVersion;
          dwBuildNumber = snd osVersion
      in if NT_SUCCESS result then
           (if dwBuildNumber = WIN_1903 W \<or> dwBuildNumber = WIN_1909 W then 0x360
            else if dwBuildNumber = WIN_1507 W \<or> dwBuildNumber = WIN_1511 W \<or>
               dwBuildNumber = WIN_1607 W \<or> dwBuildNumber = WIN_1703 W \<or>
               dwBuildNumber = WIN_1709 W \<or> dwBuildNumber = WIN_1803 W \<or>
               dwBuildNumber = WIN_1809 W then 0x358
            else 0x4b8)
         else tokenOffset)"

definition GetSignatureLevelOffset :: "win_builds \<Rightarrow> version_query \<Rightarrow> ULONG" where
  "GetSignatureLevelOffset W osVersion =
     (let signatureLevelOffset = STATUS_UNSUCCESSFUL;
          result = fst osVersion;
          dwBuildNumber = snd osVersion
      in if NT_SUCCESS result then
           (if dwBuildNumber = WIN_1903 W \<or> dwBuildNumber = WIN_1909 W then 0x6f8
            else if dwBuildNumber = WIN_1703 W \<or> dwBuildNumber = WIN_1709 W \<or>
               dwBuildNumber = WIN_1803 W \<or> dwBuildNumber = WIN_1809 W then 0x6c8
            else if dwBuildNumber = WIN_1607 W then 0x6c0
            else if dwBuildNumber = WIN_1511 W then 0x6b0
            else if dwBuildNumber = WIN_1507 W then 0x6a8
            else 0x878)
         else signatureLevelOffset)"


text \<open>The four offsets resolved for one outcome of the version query.\<close>

definition resolve :: "win_builds \<Rightarrow> version_query \<Rightarrow> ULONG \<times> ULONG \<times> UINT64 \<times> ULONG" where
  "resolve W v = (GetActiveProcessLinksOffset W v, GetProcessLock W v,
                  GetTokenOffset W v, GetSignatureLevelOffset W v)"


section \<open>Kernel memory and kernel routines\<close>

text \<open>
  Kernel memory is a store of pointer-sized cells, addressed by the address of the cell.
  The source reaches into process control blocks through pointers it computes from
  resolved offsets; every access is to a pointer-aligned cell, so two accesses touch the
  same memory exactly when their addresses are equal. A \<open>LIST_ENTRY\<close> at address \<open>a\<close>
  has \<open>Flink\<close> in the cell \<open>a\<close> and \<open>Blink\<close> in the cell \<open>a + 8\<close>. A \<open>UINT32\<close> read
  takes the low half of the little-endian cell.

  Every call of a kernel routine is recorded in \<open>events\<close>, in order. Reference counts
  live in memory this model does not describe. The word of a push lock is part of the
  store: it is the cell at the address the routine is given.
\<close>

text \<open>
  Modelled from the spec: the declaration of the request \<open>ProcessSignature\<close> is not
  among the sources; it has the three members the source reads, the signer type and the
  signer one byte each.
\<close>

record ProcessSignature =
  Pid :: ULONG
  SignerType :: UCHAR
  SignatureSigner :: UCHAR

datatype event =
  AcquirePushLockExclusive addr
| ReleasePushLockExclusive addr
| ReferenceTaken addr
| Dereference addr

record kernel =
  mem :: "addr \<Rightarrow> UINT64"
  events :: "event list"

text \<open>
  What the kernel answers: the outcome of the version query, the current process, and
  for every identifier the status and the process object of a lookup.
\<close>

record environment =
  version :: version_query
  current_process :: addr
  process_by_id :: "ULONG \<Rightarrow> NTSTATUS \<times> addr"

definition RtlGetVersion :: "environment \<Rightarrow> version_query" where
  "RtlGetVersion env = version env"

definition PsGetCurrentProcess :: "environment \<Rightarrow> addr" where
  "PsGetCurrentProcess env = current_process env"

text \<open>A successful lookup hands out a reference to the process object.\<close>

definition PsLookupProcessByProcessId ::
  "environment \<Rightarrow> ULONG \<Rightarrow> kernel \<Rightarrow> NTSTATUS \<times> addr \<times> kernel" where
  "PsLookupProcessByProcessId env pid s =
     (let (status, process) = process_by_id env pid
      in (status, process,
          if NT_SUCCESS status then s\<lparr>events := events s @ [ReferenceTaken process]\<rparr> else s))"

definition ObDereferenceObject :: "addr \<Rightarrow> kernel \<Rightarrow> kernel" where
  "ObDereferenceObject object s = s\<lparr>events := events s @ [Dereference object]\<rparr>"

text \<open>
  A push lock keeps its state in its own word. What the kernel leaves in that word when
  an exclusive acquire returns, and when a release returns, is not in the sources: the
  two functions are parameters, from the word before the call to the word after it.
\<close>

record push_lock_words =
  on_acquire :: "UINT64 \<Rightarrow> UINT64"
  on_release :: "UINT64 \<Rightarrow> UINT64"

definition ExAcquirePushLockExclusive :: "push_lock_words \<Rightarrow> addr \<Rightarrow> kernel \<Rightarrow> kernel" where
  "ExAcquirePushLockExclusive K lock s =
     s\<lparr>mem := (mem s)(lock := on_acquire K (mem s lock)),
       events := events s @ [AcquirePushLockExclusive lock]\<rparr>"

definition ExReleasePushLockExclusive :: "push_lock_words \<Rightarrow> addr \<Rightarrow> kernel \<Rightarrow> kernel" where
  "ExReleasePushLockExclusive K lock s =
     s\<lparr>mem := (mem s)(lock := on_release K (mem s lock)),
       events := events s @ [ReleasePushLockExclusive lock]\<rparr>"

definition Flink :: "kernel \<Rightarrow> addr \<Rightarrow> addr" where
  "Flink s entry = mem s entry"

definition Blink :: "kernel \<Rightarrow> addr \<Rightarrow> addr" where
  "Blink s entry = mem s (entry + 8)"

definition set_Flink :: "addr \<Rightarrow> addr \<Rightarrow> kernel \<Rightarrow> kernel" where
  "set_Flink entry v s = s\<lparr>mem := (mem s)(entry := v)\<rparr>"

definition set_Blink :: "addr \<Rightarrow> addr \<Rightarrow> kernel \<Rightarrow> kernel" where
  "set_Blink entry v s = s\<lparr>mem := (mem s)(entry + 8 := v)\<rparr>"

definition read_UINT32 :: "kernel \<Rightarrow> addr \<Rightarrow> ULONG" where
  "read_UINT32 s a = ucast (mem s a)"


section \<open>Concealment\<close>

definition RemoveProcessLinks :: "addr \<Rightarrow> kernel \<Rightarrow> kernel" where
  "RemoveProcessLinks current s =
     (let previous = Blink s current;
          next = Flink s current;
          s1 = set_Flink previous next s;
          s2 = set_Blink next previous s1;
          s3 = set_Blink current current s2;
          s4 = set_Flink current current s3
      in s4)"

text \<open>
  The \<open>while\<close> loop of \<open>HideProcess\<close>. It follows forward pointers until it is back at
  the start, which memory need not allow: the loop is a partial function, \<open>None\<close> when
  it runs forever. \<open>currentPid\<close> and \<open>currentList\<close> are recomputed from
  \<open>currentEProcess\<close> in every round, as in the source.
\<close>

partial_function (option) HideProcess_loop ::
  "push_lock_words \<Rightarrow> ULONG \<Rightarrow> ULONG \<Rightarrow> addr \<Rightarrow> addr \<Rightarrow> ULONG \<Rightarrow> addr \<Rightarrow> kernel \<Rightarrow>
   (NTSTATUS \<times> kernel) option" where
  "HideProcess_loop K pidOffset listOffset listLock StartProcess pid currentEProcess s =
     (let currentPid = currentEProcess + ucast pidOffset;
          currentList = currentEProcess + ucast listOffset
      in if StartProcess \<noteq> currentEProcess then
           (if read_UINT32 s currentPid = pid then
              Some (STATUS_SUCCESS,
                    ExReleasePushLockExclusive K listLock (RemoveProcessLinks currentList s))
            else HideProcess_loop K pidOffset listOffset listLock StartProcess pid
                   (Flink s currentList - ucast listOffset) s)
         else Some (STATUS_UNSUCCESSFUL, ExReleasePushLockExclusive K listLock s))"

text \<open>
  \<open>pidOffset + sizeof(INT_PTR)\<close> is stored in a \<open>ULONG\<close>: the sum is cut to 32 bits.
  \<open>listLock\<close> and \<open>currentList\<close> are the same address: the lock word is the first cell
  of what the walk takes for the list entry of the current process, and the walk reads
  it after the acquire. \<open>GetProcessLock\<close> is not called.
\<close>

definition HideProcess ::
  "push_lock_words \<Rightarrow> win_builds \<Rightarrow> environment \<Rightarrow> ULONG \<Rightarrow> kernel \<Rightarrow>
   (NTSTATUS \<times> kernel) option" where
  "HideProcess K W env pid s =
     (let pidOffset = GetActiveProcessLinksOffset W (RtlGetVersion env)
      in if pidOffset = STATUS_UNSUCCESSFUL then Some (STATUS_UNSUCCESSFUL, s)
         else
           (let listOffset = pidOffset + of_nat sizeof_INT_PTR;
                currentEProcess = PsGetCurrentProcess env;
                currentList = currentEProcess + ucast listOffset;
                currentPid = currentEProcess + ucast pidOffset;
                listLock = currentEProcess + ucast listOffset;
                s1 = ExAcquirePushLockExclusive K listLock s
            in if read_UINT32 s1 currentPid = pid then
                 Some (STATUS_SUCCESS,
                       ExReleasePushLockExclusive K listLock (RemoveProcessLinks currentList s1))
               else
                 (let StartProcess = currentEProcess
                  in HideProcess_loop K pidOffset listOffset listLock StartProcess pid
                       (Flink s1 currentList - ucast listOffset) s1)))"

text \<open>
  A forward path through list entries: from \<open>a\<close> over the entries \<open>ns\<close> to \<open>b\<close>, where
  the backward pointer of each successor leads back. The active process list is a closed
  path of distinct entries whose cells do not overlap.
\<close>

fun path :: "kernel \<Rightarrow> addr \<Rightarrow> addr list \<Rightarrow> addr \<Rightarrow> bool" where
  "path s a [] b \<longleftrightarrow> a = b"
| "path s a (n # ns) b \<longleftrightarrow> a = n \<and> Blink s (Flink s n) = n \<and> path s (Flink s n) ns b"

definition apart :: "addr list \<Rightarrow> bool" where
  "apart ns \<longleftrightarrow> list_all (\<lambda>a. list_all (\<lambda>b. a + 8 \<noteq> b) ns) ns"

definition active_list :: "kernel \<Rightarrow> addr list \<Rightarrow> bool" where
  "active_list s ns \<longleftrightarrow> ns \<noteq> [] \<and> distinct ns \<and> apart ns \<and> path s (hd ns) ns (hd ns)"


section \<open>Token transplant\<close>

definition ElevateProcess ::
  "win_builds \<Rightarrow> environment \<Rightarrow> ULONG \<Rightarrow> kernel \<Rightarrow> NTSTATUS \<times> kernel" where
  "ElevateProcess W env pid s =
     (let (status, targetProcess, s1) = PsLookupProcessByProcessId env pid s;
          tokenOffset = GetTokenOffset W (RtlGetVersion env)
      in if \<not> NT_SUCCESS status then (status, s1)
         else
           (let (status, privilegedProcess, s2) =
                  PsLookupProcessByProcessId env SYSTEM_PROCESS_PID s1
            in if \<not> NT_SUCCESS status then (status, ObDereferenceObject targetProcess s2)
               else
                 (let s3 = s2\<lparr>mem := (mem s2)(targetProcess + tokenOffset :=
                                          mem s2 (privilegedProcess + tokenOffset))\<rparr>;
                      s4 = ObDereferenceObject privilegedProcess s3;
                      s5 = ObDereferenceObject targetProcess s4
                  in (status, s5))))"


section \<open>Signature rewrite\<close>

text \<open>
  Modelled from the spec: the declarations of \<open>PROCESS_SIGNATURE\<close> and of its member
  \<open>Protection\<close> are not among the sources. By the spec the record sits in the control
  block at the resolved offset: a packed signature-level byte and, co-located with it, a
  bit-packed protection record of one byte that holds the signer type and the signer.
  \<open>SignatureLevel\<close> is the byte at the resolved offset itself. Where the sources say
  nothing, the layout is a parameter: the byte of the record that holds \<open>Protection\<close>
  (byte 0 when it is a second view of the packed byte) and, inside that byte, the first
  bit and the width of the bit-fields \<open>Type\<close> and \<open>Signer\<close>.
\<close>

record signature_layout =
  Protection_byte :: nat
  Type_shift :: nat
  Type_bits :: nat
  Signer_shift :: nat
  Signer_bits :: nat

definition Type_pos :: "signature_layout \<Rightarrow> nat" where
  "Type_pos L = 8 * Protection_byte L + Type_shift L"

definition Signer_pos :: "signature_layout \<Rightarrow> nat" where
  "Signer_pos L = 8 * Protection_byte L + Signer_shift L"

text \<open>
  A layout a compiler can produce: the record fits the cell, each bit-field fits the
  byte, and the two bit-fields of \<open>Protection\<close> do not share a bit.
\<close>

definition layout_ok :: "signature_layout \<Rightarrow> bool" where
  "layout_ok L \<longleftrightarrow>
     Protection_byte L < 8 \<and>
     Type_shift L + Type_bits L \<le> 8 \<and>
     Signer_shift L + Signer_bits L \<le> 8 \<and>
     (Type_shift L + Type_bits L \<le> Signer_shift L \<or>
      Signer_shift L + Signer_bits L \<le> Type_shift L)"

text \<open>
  A store to a member of \<open>width\<close> bits that starts at bit \<open>pos\<close> of the cell at \<open>a\<close>
  keeps the low \<open>width\<close> bits of the value and leaves the other bits of the cell; a
  load reads the member back.
\<close>

definition store_field :: "nat \<Rightarrow> nat \<Rightarrow> UCHAR \<Rightarrow> addr \<Rightarrow> kernel \<Rightarrow> kernel" where
  "store_field pos width v a s =
     s\<lparr>mem := (mem s)(a := (mem s a AND NOT (push_bit pos (mask width)))
                             OR push_bit pos (take_bit width (ucast v)))\<rparr>"

definition load_field :: "nat \<Rightarrow> nat \<Rightarrow> addr \<Rightarrow> kernel \<Rightarrow> UCHAR" where
  "load_field pos width a s = ucast (take_bit width (drop_bit pos (mem s a)))"

definition SignatureLevel :: "kernel \<Rightarrow> addr \<Rightarrow> UCHAR" where
  "SignatureLevel s processSignature = load_field 0 8 processSignature s"

definition Protection_Type :: "signature_layout \<Rightarrow> kernel \<Rightarrow> addr \<Rightarrow> UCHAR" where
  "Protection_Type L s processSignature =
     load_field (Type_pos L) (Type_bits L) processSignature s"

definition Protection_Signer :: "signature_layout \<Rightarrow> kernel \<Rightarrow> addr \<Rightarrow> UCHAR" where
  "Protection_Signer L s processSignature =
     load_field (Signer_pos L) (Signer_bits L) processSignature s"

text \<open>
  The shift and the bitwise or are computed on the promoted operands and the result is
  cut to one byte by the assignment to \<open>UCHAR newSignatureLevel\<close>. The three stores
  follow in the order of the source.
\<close>

definition SetProcessSignature ::
  "signature_layout \<Rightarrow> win_builds \<Rightarrow> environment \<Rightarrow> ProcessSignature \<Rightarrow> kernel \<Rightarrow>
   NTSTATUS \<times> kernel" where
  "SetProcessSignature L W env ProcessSignature s =
     (let (status, process, s1) = PsLookupProcessByProcessId env (Pid ProcessSignature) s
      in if \<not> NT_SUCCESS status then (status, s1)
         else
           (let newSignatureLevel =
                  (ucast (push_bit 4 (ucast (SignerType ProcessSignature) :: 32 word)
                          OR ucast (SignatureSigner ProcessSignature)) :: UCHAR);
                processSignature = process + ucast (GetSignatureLevelOffset W (RtlGetVersion env));
                s2 = store_field 0 8 newSignatureLevel processSignature s1;
                s3 = store_field (Type_pos L) (Type_bits L) (SignerType ProcessSignature)
                       processSignature s2;
                s4 = store_field (Signer_pos L) (Signer_bits L) (SignatureSigner ProcessSignature)
                       processSignature s3;
                s5 = ObDereferenceObject process s4
            in (status, s5)))"


section \<open>Auxiliary notions for the statements\<close>

text \<open>The identifier a registry request names.\<close>

fun request_pid :: "request \<Rightarrow> ULONG" where
  "request_pid (Add pid) = pid"
| "request_pid (Remove pid) = pid"

text \<open>How often a reference to an object was handed out, and how often one was released.\<close>

definition taken :: "addr \<Rightarrow> event list \<Rightarrow> nat" where
  "taken object es = count_list es (ReferenceTaken object)"

definition released :: "addr \<Rightarrow> event list \<Rightarrow> nat" where
  "released object es = count_list es (Dereference object)"


section \<open>Sample inputs\<close>

text \<open>
  Three processes with the identifiers 4, 100 and 200 on a build after 1909 (link
  offset \<open>0x448\<close>): control blocks at \<open>0x10000\<close>, \<open>0x20000\<close> and \<open>0x30000\<close>, the
  current process being the first. Memory is laid out as \<open>HideProcess\<close> reads it: the
  identifier at the link offset, the list entry one pointer later, at \<open>0x450\<close>. A
  lookup of any other identifier fails with the status \<open>0xC000000B\<close>.
\<close>

definition sample_kernel :: kernel where
  "sample_kernel =
     \<lparr>mem = (\<lambda>a. 0)
        (0x10448 := 4, 0x10450 := 0x20450, 0x10458 := 0x30450,
         0x20448 := 100, 0x20450 := 0x30450, 0x20458 := 0x10450,
         0x30448 := 200, 0x30450 := 0x10450, 0x30458 := 0x20450,
         0x104b8 := 0xABCD, 0x204b8 := 0x1111),
      events = []\<rparr>"

definition sample_entries :: "addr list" where
  "sample_entries = [0x10450, 0x20450, 0x30450]"

definition sample_lookup :: "ULONG \<Rightarrow> NTSTATUS \<times> addr" where
  "sample_lookup pid =
     (if pid = 4 then (STATUS_SUCCESS, 0x10000)
      else if pid = 100 then (STATUS_SUCCESS, 0x20000)
      else if pid = 200 then (STATUS_SUCCESS, 0x30000)
      else (0xC000000B, 0))"

definition sample_env :: environment where
  "sample_env =
     \<lparr>version = (STATUS_SUCCESS, 19041), current_process = 0x10000,
      process_by_id = sample_lookup\<rparr>"

text \<open>The same machine when the version query fails.\<close>

definition sample_env_unresolved :: environment where
  "sample_env_unresolved = sample_env\<lparr>version := (STATUS_UNSUCCESSFUL, 0)\<rparr>"

text \<open>The same machine without a process of identifier 4.\<close>

definition sample_env_no_system :: environment where
  "sample_env_no_system =
     sample_env\<lparr>process_by_id := (\<lambda>pid. if pid = 4 then (0xC000000B, 0) else sample_lookup pid)\<rparr>"

text \<open>
  A registry of four slots that protects the process 4242, and a user-mode request to
  open a process with the rights to read memory and to terminate.
\<close>

definition sample_registry :: ProtectedProcessesList where
  "sample_registry = \<lparr>PidsCount = 1, Processes = [4242, 0, 0, 0]\<rparr>"

text \<open>
  The same three processes laid out as the resolution function documents it: the list
  entry at the link offset \<open>0x448\<close> of each control block, forward pointer first, and
  the identifier in the cell before it, at \<open>0x440\<close>.
\<close>

definition documented_kernel :: kernel where
  "documented_kernel =
     \<lparr>mem = (\<lambda>a. 0)
        (0x10440 := 4, 0x10448 := 0x20448, 0x10450 := 0x30448,
         0x20440 := 100, 0x20448 := 0x30448, 0x20450 := 0x10448,
         0x30440 := 200, 0x30448 := 0x10448, 0x30450 := 0x20448),
      events = []\<rparr>"

text \<open>
  Two behaviours of the push-lock routines: the lowest bit of the lock word is the
  exclusive flag, set by the acquire and cleared by the release; and, for comparison,
  routines that leave the word as it is.
\<close>

definition lock_bit_words :: push_lock_words where
  "lock_bit_words = \<lparr>on_acquire = (\<lambda>w. w OR 1), on_release = (\<lambda>w. w AND NOT 1)\<rparr>"

definition untouched_words :: push_lock_words where
  "untouched_words = \<lparr>on_acquire = (\<lambda>w. w), on_release = (\<lambda>w. w)\<rparr>"

text \<open>
  Two layouts of the signature record. In the first \<open>Protection\<close> is the third byte
  with a type of three bits from bit 0 and a signer of four bits from bit 4. In the
  second it is a second view of the packed byte itself: the type in the high half, the
  signer in the low half.
\<close>

definition separate_layout :: signature_layout where
  "separate_layout =
     \<lparr>Protection_byte = 2, Type_shift = 0, Type_bits = 3, Signer_shift = 4, Signer_bits = 4\<rparr>"

definition overlaid_layout :: signature_layout where
  "overlaid_layout =
     \<lparr>Protection_byte = 0, Type_shift = 4, Type_bits = 4, Signer_shift = 0, Signer_bits = 4\<rparr>"

definition sample_request :: ProcessSignature where
  "sample_request = \<lparr>Pid = 100, SignerType = 1, SignatureSigner = 2\<rparr>"

definition sample_open :: OB_PRE_OPERATION_INFORMATION where
  "sample_open = \<lparr>KernelHandle = False, Object = 0x20000, DesiredAccess = 0x11\<rparr>"


section \<open>Properties of offset resolution\<close>

lemmas offset_defs =
  resolve_def GetActiveProcessLinksOffset_def GetProcessLock_def GetTokenOffset_def
  GetSignatureLevelOffset_def Let_def

lemma distinct_recognized:
  "distinct (recognized W) \<longleftrightarrow> distinct [WIN_1507 W, WIN_1511 W, WIN_1607 W, WIN_1703 W, WIN_1709 W,
                   WIN_1803 W, WIN_1809 W, WIN_1903 W, WIN_1909 W]"
  by (simp only: recognized_def)

lemma resolve_1507: "distinct (recognized W) \<Longrightarrow> NT_SUCCESS st \<Longrightarrow> resolve W (st, WIN_1507 W) = (0x2f0, 0x2d8, 0x358, 0x6a8)"
  by (auto simp: offset_defs distinct_recognized)

lemma resolve_1511: "distinct (recognized W) \<Longrightarrow> NT_SUCCESS st \<Longrightarrow> resolve W (st, WIN_1511 W) = (0x2f0, 0x2d8, 0x358, 0x6b0)"
  by (auto simp: offset_defs distinct_recognized)

lemma resolve_1607: "distinct (recognized W) \<Longrightarrow> NT_SUCCESS st \<Longrightarrow> resolve W (st, WIN_1607 W) = (0x2f0, 0x2d8, 0x358, 0x6c0)"
  by (auto simp: offset_defs distinct_recognized)

lemma resolve_1703: "distinct (recognized W) \<Longrightarrow> NT_SUCCESS st \<Longrightarrow> resolve W (st, WIN_1703 W) = (0x2e8, 0x2d8, 0x358, 0x6c8)"
  by (auto simp: offset_defs distinct_recognized)

lemma resolve_1709: "distinct (recognized W) \<Longrightarrow> NT_SUCCESS st \<Longrightarrow> resolve W (st, WIN_1709 W) = (0x2e8, 0x2d8, 0x358, 0x6c8)"
  by (auto simp: offset_defs distinct_recognized)

lemma resolve_1803: "distinct (recognized W) \<Longrightarrow> NT_SUCCESS st \<Longrightarrow> resolve W (st, WIN_1803 W) = (0x2e8, 0x2d8, 0x358, 0x6c8)"
  by (auto simp: offset_defs distinct_recognized)

lemma resolve_1809: "distinct (recognized W) \<Longrightarrow> NT_SUCCESS st \<Longrightarrow> resolve W (st, WIN_1809 W) = (0x2e8, 0x2d8, 0x358, 0x6c8)"
  by (auto simp: offset_defs distinct_recognized)

lemma resolve_1903: "distinct (recognized W) \<Longrightarrow> NT_SUCCESS st \<Longrightarrow> resolve W (st, WIN_1903 W) = (0x2f0, 0x2e0, 0x360, 0x6f8)"
  by (auto simp: offset_defs distinct_recognized)

lemma resolve_1909: "distinct (recognized W) \<Longrightarrow> NT_SUCCESS st \<Longrightarrow> resolve W (st, WIN_1909 W) = (0x2f0, 0x2e0, 0x360, 0x6f8)"
  by (auto simp: offset_defs distinct_recognized)

lemma resolve_other: "b \<notin> set (recognized W) \<Longrightarrow> NT_SUCCESS st \<Longrightarrow> resolve W (st, b) = (0x448, 0x438, 0x4b8, 0x878)"
  by (simp add: offset_defs recognized_def)

lemma resolve_failed: "\<not> NT_SUCCESS st \<Longrightarrow> resolve W (st, b) =
   (STATUS_UNSUCCESSFUL, STATUS_UNSUCCESSFUL, scast STATUS_UNSUCCESSFUL, STATUS_UNSUCCESSFUL)"
  by (simp add: offset_defs)

lemma link_offset_resolved:
  "GetActiveProcessLinksOffset W v = STATUS_UNSUCCESSFUL \<longleftrightarrow> \<not> NT_SUCCESS (fst v)"
  by (simp add: GetActiveProcessLinksOffset_def STATUS_UNSUCCESSFUL_def Let_def)

lemma lock_offset_resolved:
  "GetProcessLock W v = STATUS_UNSUCCESSFUL \<longleftrightarrow> \<not> NT_SUCCESS (fst v)"
  by (simp add: GetProcessLock_def STATUS_UNSUCCESSFUL_def Let_def)

lemma token_offset_resolved:
  "GetTokenOffset W v = scast STATUS_UNSUCCESSFUL \<longleftrightarrow> \<not> NT_SUCCESS (fst v)"
  by (simp add: GetTokenOffset_def STATUS_UNSUCCESSFUL_def Let_def)

lemma signature_offset_resolved:
  "GetSignatureLevelOffset W v = STATUS_UNSUCCESSFUL \<longleftrightarrow> \<not> NT_SUCCESS (fst v)"
  by (simp add: GetSignatureLevelOffset_def STATUS_UNSUCCESSFUL_def Let_def)

lemma NT_SUCCESS_sentinel: "\<not> NT_SUCCESS STATUS_UNSUCCESSFUL"
  by (simp add: NT_SUCCESS_def STATUS_UNSUCCESSFUL_def)

lemma NT_SUCCESS_SUCCESS: "NT_SUCCESS STATUS_SUCCESS"
  by (simp add: NT_SUCCESS_def STATUS_SUCCESS_def)

lemma windows10_distinct: "distinct (recognized windows10)"
  by (simp add: recognized_def windows10_def)

text \<open>
  Claim C5. Each of the four resolution functions is a total function of the outcome of
  the version query. After a successful query every recognized build number yields its
  literal offset, every other build number yields the fallback offset, and no result
  is the unsuccessful sentinel; after a failed query every function yields the sentinel
  (sign-extended to 64 bits for the token offset).
\<close>

theorem offsets_resolved:
  assumes "distinct (recognized W)"
  shows "(NT_SUCCESS status \<longrightarrow>
            resolve W (status, WIN_1507 W) = (0x2f0, 0x2d8, 0x358, 0x6a8)
          \<and> resolve W (status, WIN_1511 W) = (0x2f0, 0x2d8, 0x358, 0x6b0)
          \<and> resolve W (status, WIN_1607 W) = (0x2f0, 0x2d8, 0x358, 0x6c0)
          \<and> resolve W (status, WIN_1703 W) = (0x2e8, 0x2d8, 0x358, 0x6c8)
          \<and> resolve W (status, WIN_1709 W) = (0x2e8, 0x2d8, 0x358, 0x6c8)
          \<and> resolve W (status, WIN_1803 W) = (0x2e8, 0x2d8, 0x358, 0x6c8)
          \<and> resolve W (status, WIN_1809 W) = (0x2e8, 0x2d8, 0x358, 0x6c8)
          \<and> resolve W (status, WIN_1903 W) = (0x2f0, 0x2e0, 0x360, 0x6f8)
          \<and> resolve W (status, WIN_1909 W) = (0x2f0, 0x2e0, 0x360, 0x6f8)
          \<and> (\<forall>b. b \<notin> set (recognized W) \<longrightarrow>
                 resolve W (status, b) = (0x448, 0x438, 0x4b8, 0x878))
          \<and> (\<forall>b. GetActiveProcessLinksOffset W (status, b) \<noteq> STATUS_UNSUCCESSFUL
                \<and> GetProcessLock W (status, b) \<noteq> STATUS_UNSUCCESSFUL
                \<and> GetTokenOffset W (status, b) \<noteq> scast STATUS_UNSUCCESSFUL
                \<and> GetSignatureLevelOffset W (status, b) \<noteq> STATUS_UNSUCCESSFUL))
       \<and> (\<not> NT_SUCCESS status \<longrightarrow>
            (\<forall>b. resolve W (status, b) =
                   (STATUS_UNSUCCESSFUL, STATUS_UNSUCCESSFUL,
                    scast STATUS_UNSUCCESSFUL, STATUS_UNSUCCESSFUL)))"
  using assms
  by (simp add: resolve_1507 resolve_1511 resolve_1607 resolve_1703 resolve_1709 resolve_1803
      resolve_1809 resolve_1903 resolve_1909 resolve_other resolve_failed link_offset_resolved
      lock_offset_resolved token_offset_resolved signature_offset_resolved)

text \<open>
  Claim C5 on the Windows 10 build numbers: build 17763 is recognized, build 19041 is
  not, and a failed query gives the sentinel four times.
\<close>

theorem offsets_resolved_witness:
  "distinct (recognized windows10)
   \<and> NT_SUCCESS STATUS_SUCCESS
   \<and> resolve windows10 (STATUS_SUCCESS, 17763) = (0x2e8, 0x2d8, 0x358, 0x6c8)
   \<and> 19041 \<notin> set (recognized windows10)
   \<and> resolve windows10 (STATUS_SUCCESS, 19041) = (0x448, 0x438, 0x4b8, 0x878)
   \<and> \<not> NT_SUCCESS STATUS_UNSUCCESSFUL
   \<and> resolve windows10 (STATUS_UNSUCCESSFUL, 17763)
       = (0xC0000001, 0xC0000001, 0xFFFFFFFFC0000001, 0xC0000001)"
proof -
  have ok: "NT_SUCCESS STATUS_SUCCESS" by (simp add: NT_SUCCESS_def STATUS_SUCCESS_def)
  have b: "WIN_1809 windows10 = 17763" by (simp add: windows10_def)
  have o: "19041 \<notin> set (recognized windows10)" by (simp add: recognized_def windows10_def)
  have s: "STATUS_UNSUCCESSFUL = 0xC0000001"
    "(scast STATUS_UNSUCCESSFUL :: UINT64) = 0xFFFFFFFFC0000001"
    by (simp_all add: STATUS_UNSUCCESSFUL_def)
  from offsets_resolved [OF windows10_distinct, of STATUS_SUCCESS] ok b o
  have 1: "resolve windows10 (STATUS_SUCCESS, 17763) = (0x2e8, 0x2d8, 0x358, 0x6c8)"
    and 2: "resolve windows10 (STATUS_SUCCESS, 19041) = (0x448, 0x438, 0x4b8, 0x878)"
    by auto
  from offsets_resolved [OF windows10_distinct, of STATUS_UNSUCCESSFUL] NT_SUCCESS_sentinel s
  have 3: "resolve windows10 (STATUS_UNSUCCESSFUL, 17763)
       = (0xC0000001, 0xC0000001, 0xFFFFFFFFC0000001, 0xC0000001)"
    by auto
  from windows10_distinct ok o NT_SUCCESS_sentinel 1 2 3 show ?thesis by blast
qed

text \<open>
  Claim C6 as stated fails: for build 19041 the process-lock offset is \<open>0x438\<close>,
  the link offset plus one pointer width is \<open>0x450\<close>.
\<close>

theorem GetProcessLock_is_not_link_plus_pointer:
  "GetProcessLock windows10 (STATUS_SUCCESS, 19041)
     \<noteq> GetActiveProcessLinksOffset windows10 (STATUS_SUCCESS, 19041) + of_nat sizeof_INT_PTR"
  by (simp add: GetProcessLock_def GetActiveProcessLinksOffset_def NT_SUCCESS_def
      STATUS_SUCCESS_def windows10_def sizeof_INT_PTR_def)

text \<open>
  Claim C6, amended. After a successful version query the process-lock offset is never
  the link offset plus one pointer width: it lies below the link offset, by \<open>0x18\<close>
  for the builds 1507, 1511 and 1607 and by \<open>0x10\<close> for every other build, recognized
  or not.
\<close>

theorem GetProcessLock_below_link:
  assumes "distinct (recognized W)" and "NT_SUCCESS status"
  shows "GetProcessLock W (status, b) =
           GetActiveProcessLinksOffset W (status, b)
             - (if b \<in> {WIN_1507 W, WIN_1511 W, WIN_1607 W} then 0x18 else 0x10)
       \<and> GetProcessLock W (status, b)
           \<noteq> GetActiveProcessLinksOffset W (status, b) + of_nat sizeof_INT_PTR"
proof -
  have "GetProcessLock W (status, b) =
           GetActiveProcessLinksOffset W (status, b)
             - (if b \<in> {WIN_1507 W, WIN_1511 W, WIN_1607 W} then 0x18 else 0x10)"
    using assms
    by (auto simp: GetProcessLock_def GetActiveProcessLinksOffset_def Let_def distinct_recognized)
  moreover have "GetProcessLock W (status, b)
           \<noteq> GetActiveProcessLinksOffset W (status, b) + of_nat sizeof_INT_PTR"
    using assms(2)
    by (simp add: GetProcessLock_def GetActiveProcessLinksOffset_def Let_def sizeof_INT_PTR_def)
  ultimately show ?thesis by simp
qed

text \<open>
  Claim C6, amended, on the Windows 10 build numbers: build 10240 (1507) and the
  unrecognized build 19041.
\<close>

theorem GetProcessLock_below_link_witness:
  "distinct (recognized windows10) \<and> NT_SUCCESS STATUS_SUCCESS
   \<and> GetActiveProcessLinksOffset windows10 (STATUS_SUCCESS, 10240) = 0x2f0
   \<and> GetProcessLock windows10 (STATUS_SUCCESS, 10240) = 0x2f0 - 0x18
   \<and> GetActiveProcessLinksOffset windows10 (STATUS_SUCCESS, 19041) = 0x448
   \<and> GetProcessLock windows10 (STATUS_SUCCESS, 19041) = 0x448 - 0x10"
proof -
  have a: "GetActiveProcessLinksOffset windows10 (STATUS_SUCCESS, 10240) = 0x2f0"
    "GetActiveProcessLinksOffset windows10 (STATUS_SUCCESS, 19041) = 0x448"
    using NT_SUCCESS_SUCCESS
    by (simp_all add: GetActiveProcessLinksOffset_def windows10_def)
  have m: "(10240 :: ULONG) \<in> {WIN_1507 windows10, WIN_1511 windows10, WIN_1607 windows10}"
    "(19041 :: ULONG) \<notin> {WIN_1507 windows10, WIN_1511 windows10, WIN_1607 windows10}"
    by (simp_all add: windows10_def)
  from GetProcessLock_below_link [OF windows10_distinct NT_SUCCESS_SUCCESS, of 10240] m(1) a(1)
  have 1: "GetProcessLock windows10 (STATUS_SUCCESS, 10240) = 0x2f0 - 0x18" by simp
  from GetProcessLock_below_link [OF windows10_distinct NT_SUCCESS_SUCCESS, of 19041] m(2) a(2)
  have 2: "GetProcessLock windows10 (STATUS_SUCCESS, 19041) = 0x448 - 0x10" by simp
  from windows10_distinct NT_SUCCESS_SUCCESS a 1 2 show ?thesis by blast
qed


section \<open>Properties of the registry\<close>

lemma FindProcess_from_total:
  "PidsCount g \<le> int (length (Processes g)) \<Longrightarrow> \<exists>found. FindProcess_from i g pid = Some found"
proof (induction i g pid rule: FindProcess_from.induct)
  case (1 i g pid)
  then show ?case by (subst FindProcess_from.simps) auto
qed

lemma FindProcess_from_sound:
  "FindProcess_from i g pid = Some True \<Longrightarrow> pid \<in> set (Processes g)"
proof (induction i g pid rule: FindProcess_from.induct)
  case (1 i g pid)
  from "1.prems" show ?case
    by (subst (asm) FindProcess_from.simps) (auto split: if_splits intro: "1.IH")
qed

lemma length_filter_update:
  "i < length xs \<Longrightarrow>
     length (filter P (xs[i := v])) + (if P (xs ! i) then 1 else 0) =
     length (filter P xs) + (if P v then 1 else 0)"
proof (induction xs arbitrary: i)
  case Nil
  then show ?case by simp
next
  case (Cons x xs)
  then show ?case by (cases i) auto
qed

lemma occupied_le: "occupied g \<le> length (Processes g)"
  by (simp add: occupied_def)

lemma AddProcess_from_count:
  "pid \<noteq> 0 \<Longrightarrow> PidsCount g = int (occupied g) \<Longrightarrow>
     PidsCount (snd (AddProcess_from i g pid)) = int (occupied (snd (AddProcess_from i g pid)))"
proof (induction i g pid rule: AddProcess_from.induct)
  case (1 i g pid)
  show ?case
  proof (cases "i < length (Processes g) \<and> Processes g ! i = 0")
    case True
    with length_filter_update [of i "Processes g" "\<lambda>p. p \<noteq> 0" pid] "1.prems"
    show ?thesis
      by (subst (1 2) AddProcess_from.simps) (simp add: occupied_def)
  next
    case False
    with 1 show ?thesis
      by (subst (1 2) AddProcess_from.simps) auto
  qed
qed

lemma RemoveProcess_from_count:
  "pid \<noteq> 0 \<Longrightarrow> PidsCount g = int (occupied g) \<Longrightarrow>
     \<exists>ok g'. RemoveProcess_from i g pid = Some (ok, g') \<and> PidsCount g' = int (occupied g')"
proof (induction i g pid rule: RemoveProcess_from.induct)
  case (1 i g pid)
  have le: "PidsCount g \<le> int (length (Processes g))"
    using "1.prems" occupied_le [of g] by simp
  show ?case
  proof (cases "int i < PidsCount g")
    case False
    with "1.prems" show ?thesis
      by (subst RemoveProcess_from.simps) auto
  next
    case True
    with le have i: "i < length (Processes g)" by simp
    show ?thesis
    proof (cases "Processes g ! i = pid")
      case False
      with True i 1 show ?thesis
        by (subst RemoveProcess_from.simps) simp
    next
      case eq: True
      with length_filter_update [of i "Processes g" "\<lambda>p. p \<noteq> 0" 0] i "1.prems"
      have "int (occupied (g\<lparr>Processes := (Processes g)[i := 0], PidsCount := PidsCount g - 1\<rparr>))
              = PidsCount g - 1"
        by (simp add: occupied_def)
      with True i eq show ?thesis
        by (subst RemoveProcess_from.simps) auto
    qed
  qed
qed

text \<open>
  From a registry whose counter equals the number of occupied slots, every sequence of
  requests with identifiers other than 0 runs without a read beyond the array and ends
  in such a registry again. The empty registry is one.
\<close>

lemma PidsCount_occupied:
  "PidsCount g = int (occupied g) \<Longrightarrow> \<forall>r\<in>set rs. request_pid r \<noteq> 0 \<Longrightarrow>
     \<exists>g'. run_requests g rs = Some g' \<and> PidsCount g' = int (occupied g')"
proof (induction rs arbitrary: g)
  case Nil
  then show ?case by simp
next
  case (Cons r rs)
  show ?case
  proof (cases r)
    case (Add pid)
    with Cons.prems have "pid \<noteq> 0" by simp
    from AddProcess_from_count [OF this Cons.prems(1), of 0] Cons.IH [of "snd (AddProcess g pid)"]
      Cons.prems(2) Add
    show ?thesis by (simp add: AddProcess_def)
  next
    case (Remove pid)
    with Cons.prems have "pid \<noteq> 0" by simp
    from RemoveProcess_from_count [OF this Cons.prems(1), of 0]
    obtain ok g' where "RemoveProcess g pid = Some (ok, g')" "PidsCount g' = int (occupied g')"
      by (auto simp: RemoveProcess_def)
    with Cons.IH [of g'] Cons.prems(2) Remove show ?thesis by simp
  qed
qed

lemma empty_registry_count: "PidsCount (empty_registry n) = int (occupied (empty_registry n))"
  by (simp add: empty_registry_def occupied_def)

text \<open>
  Claim C1 at the requests add 1, add 2, remove 1 on an empty registry of at least two
  slots: the identifier 2 is still in slot 1 and the counter is 1, the number of occupied
  slots, but \<open>FindProcess\<close> looks at slot 0 only and answers false for 2, and
  \<open>RemoveProcess\<close> cannot remove it.
\<close>

theorem FindProcess_misses_behind_hole:
  assumes "2 \<le> MAX_PIDS"
  shows "\<exists>g. run_requests (empty_registry MAX_PIDS) [Add 1, Add 2, Remove 1] = Some g
           \<and> Processes g ! 1 = 2 \<and> PidsCount g = 1 \<and> occupied g = 1
           \<and> FindProcess g 2 = Some False \<and> RemoveProcess g 2 = Some (False, g)"
proof -
  from assms obtain m where m: "MAX_PIDS = Suc (Suc m)"
    by (metis One_nat_def Suc_1 Suc_le_D Suc_le_mono)
  show ?thesis
    by (simp add: m empty_registry_def AddProcess_def RemoveProcess_def FindProcess_def
        occupied_def AddProcess_from.simps RemoveProcess_from.simps FindProcess_from.simps)
qed

text \<open>
  Claim C1, the same run with 256 slots.
\<close>

theorem FindProcess_misses_behind_hole_witness:
  "(2::nat) \<le> 256 \<and>
   (\<exists>g. run_requests (empty_registry 256) [Add 1, Add 2, Remove 1] = Some g
           \<and> Processes g ! 1 = 2 \<and> PidsCount g = 1 \<and> occupied g = 1
           \<and> FindProcess g 2 = Some False \<and> RemoveProcess g 2 = Some (False, g))"
  using FindProcess_misses_behind_hole [of 256] by simp


section \<open>Properties of the access filter\<close>

lemma clear_five:
  "((((a AND NOT PROCESS_VM_OPERATION) AND NOT PROCESS_VM_READ) AND NOT PROCESS_CREATE_THREAD)
      AND NOT PROCESS_DUP_HANDLE) AND NOT PROCESS_TERMINATE
   = a AND NOT (PROCESS_VM_OPERATION OR PROCESS_VM_READ OR PROCESS_CREATE_THREAD
                OR PROCESS_DUP_HANDLE OR PROCESS_TERMINATE)"
  by (simp only: bit.de_Morgan_disj and.assoc)

lemma five_bits:
  "bit (PROCESS_VM_OPERATION OR PROCESS_VM_READ OR PROCESS_CREATE_THREAD
                OR PROCESS_DUP_HANDLE OR PROCESS_TERMINATE) n \<longleftrightarrow> n \<in> {0, 1, 3, 4, 6}"
proof -
  have "PROCESS_VM_OPERATION OR PROCESS_VM_READ OR PROCESS_CREATE_THREAD
                OR PROCESS_DUP_HANDLE OR PROCESS_TERMINATE
        = (2 ^ 0 OR 2 ^ 1 OR 2 ^ 3 OR 2 ^ 4 OR 2 ^ 6 :: 32 word)"
    by (simp add: PROCESS_VM_OPERATION_def PROCESS_VM_READ_def PROCESS_CREATE_THREAD_def
        PROCESS_DUP_HANDLE_def PROCESS_TERMINATE_def)
  then show ?thesis by (simp only: bit_or_iff bit_exp_iff) auto
qed

text \<open>
  What the callback does in terms of the answer of \<open>FindProcess\<close>, on a registry
  whose counter does not exceed the array: it returns \<open>OB_PREOP_SUCCESS\<close> and changes
  nothing but the desired access; the mask is unchanged for a kernel handle, for an
  empty registry and when \<open>FindProcess\<close> answers false; otherwise the bits 0, 1, 3, 4
  and 6 are cleared and every other bit is kept. No bit is ever set.
\<close>

lemma OnPreOpenProcess_by_FindProcess:
  assumes "PidsCount g \<le> int (length (Processes g))"
  shows "\<exists>found mask'.
           FindProcess g (HandleToULong (PsGetProcessId (Object Info))) = Some found
         \<and> OnPreOpenProcess PsGetProcessId g Info
             = Some (OB_PREOP_SUCCESS, Info\<lparr>DesiredAccess := mask'\<rparr>)
         \<and> (KernelHandle Info \<or> PidsCount g = 0 \<or> \<not> found \<longrightarrow> mask' = DesiredAccess Info)
         \<and> (found \<longrightarrow> HandleToULong (PsGetProcessId (Object Info)) \<in> set (Processes g))
         \<and> (\<not> KernelHandle Info \<and> PidsCount g \<noteq> 0 \<and> found \<longrightarrow>
               mask' = DesiredAccess Info AND NOT (PROCESS_VM_OPERATION OR PROCESS_VM_READ OR
                         PROCESS_CREATE_THREAD OR PROCESS_DUP_HANDLE OR PROCESS_TERMINATE)
             \<and> (\<forall>n. bit mask' n \<longleftrightarrow> bit (DesiredAccess Info) n \<and> n \<notin> {0, 1, 3, 4, 6}))
         \<and> (\<forall>n. bit mask' n \<longrightarrow> bit (DesiredAccess Info) n)"
proof -
  let ?pid = "HandleToULong (PsGetProcessId (Object Info))"
  let ?five = "PROCESS_VM_OPERATION OR PROCESS_VM_READ OR PROCESS_CREATE_THREAD
                OR PROCESS_DUP_HANDLE OR PROCESS_TERMINATE"
  from FindProcess_from_total [OF assms, of 0 ?pid]
  obtain found where f: "FindProcess g ?pid = Some found"
    by (auto simp: FindProcess_def)
  have s: "found \<longrightarrow> ?pid \<in> set (Processes g)"
    using f FindProcess_from_sound [of 0 g ?pid] by (auto simp: FindProcess_def)
  show ?thesis
  proof (cases "KernelHandle Info \<or> PidsCount g = 0 \<or> \<not> found")
    case True
    with f have "OnPreOpenProcess PsGetProcessId g Info
        = Some (OB_PREOP_SUCCESS, Info\<lparr>DesiredAccess := DesiredAccess Info\<rparr>)"
      by (auto simp: OnPreOpenProcess_def Let_def)
    with f s True show ?thesis by blast
  next
    case False
    with f have r: "OnPreOpenProcess PsGetProcessId g Info
        = Some (OB_PREOP_SUCCESS, Info\<lparr>DesiredAccess := DesiredAccess Info AND NOT ?five\<rparr>)"
      by (simp add: OnPreOpenProcess_def Let_def clear_five)
    have b: "bit (DesiredAccess Info AND NOT ?five) n
               \<longleftrightarrow> bit (DesiredAccess Info) n \<and> n \<notin> {0, 1, 3, 4, 6}" for n
      by (simp only: bit_and_iff bit_not_iff five_bits) (auto dest: bit_imp_possible_bit)
    from f s r False b show ?thesis by blast
  qed
qed

text \<open>
  Claim C2 at the registry left by add 1, add 2, remove 1 (at least two slots): the
  identifier 2 is registered, in slot 1, and the registry is not empty, yet every
  user-mode request to open process 2 passes with its mask unchanged, because
  \<open>FindProcess\<close> looks at slot 0 only. That slot is free, so a request to open the
  never registered identifier 0 has the five guarded bits cleared.
\<close>

theorem OnPreOpenProcess_misses_behind_hole:
  assumes "2 \<le> MAX_PIDS"
  shows "\<exists>g. run_requests (empty_registry MAX_PIDS) [Add 1, Add 2, Remove 1] = Some g
           \<and> Processes g ! 1 = 2 \<and> 2 \<in> set (Processes g) \<and> 0 < PidsCount g
           \<and> (\<forall>PsGetProcessId Info.
                 \<not> KernelHandle Info \<and> HandleToULong (PsGetProcessId (Object Info)) = 2 \<longrightarrow>
                 OnPreOpenProcess PsGetProcessId g Info = Some (OB_PREOP_SUCCESS, Info))
           \<and> (\<forall>PsGetProcessId Info.
                 \<not> KernelHandle Info \<and> HandleToULong (PsGetProcessId (Object Info)) = 0 \<longrightarrow>
                 OnPreOpenProcess PsGetProcessId g Info =
                   Some (OB_PREOP_SUCCESS,
                         Info\<lparr>DesiredAccess := DesiredAccess Info AND NOT
                           (PROCESS_VM_OPERATION OR PROCESS_VM_READ OR PROCESS_CREATE_THREAD
                            OR PROCESS_DUP_HANDLE OR PROCESS_TERMINATE)\<rparr>))"
proof -
  from assms obtain m where m: "MAX_PIDS = Suc (Suc m)"
    by (metis One_nat_def Suc_1 Suc_le_D Suc_le_mono)
  let ?g = "\<lparr>PidsCount = 1, Processes = 0 # 2 # replicate m 0\<rparr>"
  have run: "run_requests (empty_registry MAX_PIDS) [Add 1, Add 2, Remove 1] = Some ?g"
    by (simp add: m empty_registry_def AddProcess_def RemoveProcess_def
        AddProcess_from.simps RemoveProcess_from.simps)
  have f2: "FindProcess ?g 2 = Some False" and f0: "FindProcess ?g 0 = Some True"
    by (simp_all add: FindProcess_def FindProcess_from.simps)
  have a: "OnPreOpenProcess P ?g Info = Some (OB_PREOP_SUCCESS, Info)"
    if "\<not> KernelHandle Info \<and> HandleToULong (P (Object Info)) = 2" for P Info
    using that f2 by (simp add: OnPreOpenProcess_def Let_def)
  have b: "OnPreOpenProcess P ?g Info =
                   Some (OB_PREOP_SUCCESS,
                         Info\<lparr>DesiredAccess := DesiredAccess Info AND NOT
                           (PROCESS_VM_OPERATION OR PROCESS_VM_READ OR PROCESS_CREATE_THREAD
                            OR PROCESS_DUP_HANDLE OR PROCESS_TERMINATE)\<rparr>)"
    if "\<not> KernelHandle Info \<and> HandleToULong (P (Object Info)) = 0" for P Info
    using that f0 by (simp add: OnPreOpenProcess_def Let_def clear_five)
  from run a b show ?thesis
    by (intro exI [of _ ?g]) simp
qed

text \<open>
  Claim C2, the same registry with 256 slots and the sample request, aimed at
  process 2.
\<close>

theorem OnPreOpenProcess_misses_behind_hole_witness:
  "(2::nat) \<le> 256 \<and> \<not> KernelHandle sample_open
   \<and> HandleToULong ((\<lambda>p. 2) (Object sample_open)) = 2
   \<and> (\<exists>g. run_requests (empty_registry 256) [Add 1, Add 2, Remove 1] = Some g
          \<and> 2 \<in> set (Processes g)
          \<and> OnPreOpenProcess (\<lambda>p. 2) g sample_open = Some (OB_PREOP_SUCCESS, sample_open))"
proof -
  have k: "\<not> KernelHandle sample_open" "HandleToULong ((\<lambda>p. 2) (Object sample_open)) = 2"
    by (simp_all add: sample_open_def HandleToULong_def)
  from OnPreOpenProcess_misses_behind_hole [of 256]
  obtain g where "run_requests (empty_registry 256) [Add 1, Add 2, Remove 1] = Some g"
    "2 \<in> set (Processes g)"
    "\<forall>PsGetProcessId Info.
        \<not> KernelHandle Info \<and> HandleToULong (PsGetProcessId (Object Info)) = 2 \<longrightarrow>
        OnPreOpenProcess PsGetProcessId g Info = Some (OB_PREOP_SUCCESS, Info)"
    by auto
  with k show ?thesis by auto
qed


section \<open>Properties of the list surgery\<close>

lemma path_mem_cong: "mem s' = mem s \<Longrightarrow> path s' a ns b = path s a ns b"
  by (induction ns arbitrary: a) (simp_all add: Flink_def Blink_def)

lemma path_hd: "path s a ns b \<Longrightarrow> ns \<noteq> [] \<Longrightarrow> a = hd ns"
  by (cases ns) simp_all

lemma path_succ:
  "path s a ns b \<Longrightarrow> n \<in> set ns \<Longrightarrow>
     Blink s (Flink s n) = n \<and> (Flink s n \<in> set ns \<or> Flink s n = b)"
proof (induction ns arbitrary: a)
  case Nil
  then show ?case by simp
next
  case (Cons x xs)
  show ?case
  proof (cases "n = x")
    case True
    with Cons.prems show ?thesis
      by (cases xs) auto
  next
    case False
    with Cons show ?thesis by auto
  qed
qed

lemma path_pred:
  "path s a ns b \<Longrightarrow> n \<in> set ns \<Longrightarrow> n = a \<or> (\<exists>m\<in>set ns. Flink s m = n)"
proof (induction ns arbitrary: a)
  case Nil
  then show ?case by simp
next
  case (Cons x xs)
  then show ?case by fastforce
qed

lemma path_last: "path s a ns b \<Longrightarrow> ns \<noteq> [] \<Longrightarrow> Flink s (last ns) = b"
  by (induction ns arbitrary: a) auto

lemma active_list_next:
  assumes "active_list s ns" "c \<in> set ns"
  shows "Flink s c \<in> set ns" "Blink s (Flink s c) = c"
  using assms path_succ [of s "hd ns" ns "hd ns" c]
  by (auto simp: active_list_def)

lemma active_list_prev:
  assumes "active_list s ns" "c \<in> set ns"
  shows "Blink s c \<in> set ns" "Flink s (Blink s c) = c"
proof -
  from assms have p: "path s (hd ns) ns (hd ns)" and ne: "ns \<noteq> []"
    by (simp_all add: active_list_def)
  have "\<exists>m\<in>set ns. Flink s m = c"
  proof (cases "c = hd ns")
    case True
    with path_last [OF p ne] ne show ?thesis by (intro bexI [of _ "last ns"]) simp_all
  next
    case False
    with path_pred [OF p assms(2)] show ?thesis by simp
  qed
  then obtain m where m: "m \<in> set ns" "Flink s m = c" by blast
  with path_succ [OF p m(1)] show "Blink s c \<in> set ns" "Flink s (Blink s c) = c"
    by simp_all
qed

lemma apart_D: "apart ns \<Longrightarrow> a \<in> set ns \<Longrightarrow> b \<in> set ns \<Longrightarrow> a + 8 \<noteq> b"
  by (auto simp: apart_def list_all_iff)

lemma mem_RemoveProcessLinks:
  "mem (RemoveProcessLinks c s) =
     (mem s)(Blink s c := Flink s c, Flink s c + 8 := Blink s c, c + 8 := c, c := c)"
  by (simp add: RemoveProcessLinks_def Let_def set_Flink_def set_Blink_def Flink_def Blink_def)

text \<open>
  Claim C3. When \<open>RemoveProcessLinks\<close> unlinks an entry of the active process list,
  the forward pointer of its predecessor is its successor, the backward pointer of its
  successor is its predecessor, both pointers of the entry point to the entry itself,
  and no pointer of another entry of the list points to it.
\<close>

theorem RemoveProcessLinks_unlinks:
  assumes al: "active_list s ns" and c: "current \<in> set ns"
  shows "Flink (RemoveProcessLinks current s) (Blink s current) = Flink s current
       \<and> Blink (RemoveProcessLinks current s) (Flink s current) = Blink s current
       \<and> Flink (RemoveProcessLinks current s) current = current
       \<and> Blink (RemoveProcessLinks current s) current = current
       \<and> (\<forall>n\<in>set ns. n \<noteq> current \<longrightarrow>
             Flink (RemoveProcessLinks current s) n \<noteq> current
           \<and> Blink (RemoveProcessLinks current s) n \<noteq> current)"
proof -
  let ?p = "Blink s current" and ?x = "Flink s current"
  let ?s' = "RemoveProcessLinks current s"
  note nx = active_list_next [OF al c] and pv = active_list_prev [OF al c]
  from al have ap: "apart ns" by (simp add: active_list_def)
  have m: "mem ?s' = (mem s)(?p := ?x, ?x + 8 := ?p, current + 8 := current, current := current)"
    by (rule mem_RemoveProcessLinks)
  have d1: "?p \<noteq> current + 8" "?p \<noteq> ?x + 8" "?x + 8 \<noteq> current"
    using apart_D [OF ap c pv(1)] apart_D [OF ap nx(1) pv(1)] apart_D [OF ap nx(1) c]
    by auto
  have single: "?p = current \<longleftrightarrow> ?x = current"
    using nx(2) pv(2) by metis
  have 1: "Flink ?s' ?p = ?x"
    using d1 single by (auto simp: Flink_def [of ?s'] m)
  have 2: "Blink ?s' ?x = ?p"
    using d1 single by (auto simp: Blink_def [of ?s'] m)
  have 3: "Flink ?s' current = current"
    by (simp add: Flink_def [of ?s'] m)
  have 4: "Blink ?s' current = current"
    by (simp add: Blink_def [of ?s'] m)
  have 5: "Flink ?s' n \<noteq> current \<and> Blink ?s' n \<noteq> current"
    if n: "n \<in> set ns" and ne: "n \<noteq> current" for n
  proof -
    note nn = active_list_next [OF al n] and np = active_list_prev [OF al n]
    have e: "n \<noteq> current + 8" "n \<noteq> ?x + 8" "n + 8 \<noteq> current" "n + 8 \<noteq> ?p"
      using apart_D [OF ap c n] apart_D [OF ap nx(1) n] apart_D [OF ap n c]
        apart_D [OF ap n pv(1)] by auto
    have f: "Flink ?s' n = (if n = ?p then ?x else Flink s n)"
      using e ne by (simp add: Flink_def m)
    have b: "Blink ?s' n = (if n = ?x then ?p else Blink s n)"
      using e ne by (simp add: Blink_def m)
    have "Flink ?s' n \<noteq> current"
      using f ne single nn(2) by (metis)
    moreover have "Blink ?s' n \<noteq> current"
      using b ne single np(2) by (metis)
    ultimately show ?thesis by simp
  qed
  from 1 2 3 4 5 show ?thesis by blast
qed

lemma sample_active: "active_list sample_kernel sample_entries"
  by (simp add: active_list_def apart_def sample_entries_def sample_kernel_def Flink_def Blink_def)

text \<open>
  Claim C3 on the sample list: unlinking the second of three entries.
\<close>

theorem RemoveProcessLinks_unlinks_witness:
  "active_list sample_kernel sample_entries \<and> 0x20450 \<in> set sample_entries
   \<and> Blink sample_kernel 0x20450 = 0x10450 \<and> Flink sample_kernel 0x20450 = 0x30450
   \<and> Flink (RemoveProcessLinks 0x20450 sample_kernel) 0x10450 = 0x30450
   \<and> Blink (RemoveProcessLinks 0x20450 sample_kernel) 0x30450 = 0x10450
   \<and> Flink (RemoveProcessLinks 0x20450 sample_kernel) 0x20450 = 0x20450
   \<and> Blink (RemoveProcessLinks 0x20450 sample_kernel) 0x20450 = 0x20450"
proof -
  have c: "0x20450 \<in> set sample_entries" by (simp add: sample_entries_def)
  have l: "Blink sample_kernel 0x20450 = 0x10450" "Flink sample_kernel 0x20450 = 0x30450"
    by (simp_all add: Flink_def Blink_def sample_kernel_def)
  from RemoveProcessLinks_unlinks [OF sample_active c] sample_active c l
  show ?thesis by simp
qed


section \<open>Properties of concealment\<close>

lemma sample_version_ok: "NT_SUCCESS (fst (version sample_env))"
  by (simp add: sample_env_def NT_SUCCESS_def STATUS_SUCCESS_def)

lemma sample_link_offset: "GetActiveProcessLinksOffset windows10 (version sample_env) = 0x448"
  using sample_version_ok
  by (simp add: GetActiveProcessLinksOffset_def Let_def) (simp add: sample_env_def windows10_def)

text \<open>
  When the offset is unresolved, \<open>HideProcess\<close> returns the unsuccessful status before
  it touches a lock or memory.
\<close>

lemma HideProcess_unresolved:
  "\<not> NT_SUCCESS (fst (version env)) \<Longrightarrow>
     HideProcess K W env pid s = Some (STATUS_UNSUCCESSFUL, s)"
  by (simp add: HideProcess_def link_offset_resolved RtlGetVersion_def)

text \<open>
  A walk that stays inside a set of pointers, none of them the start and none with the
  identifier, never returns.
\<close>

lemma HideProcess_loop_trapped:
  assumes closed: "\<And>c. c \<in> C \<Longrightarrow>
              c \<noteq> start \<and> read_UINT32 s (c + ucast po) \<noteq> pid
            \<and> Flink s (c + ucast lo) - ucast lo \<in> C"
    and c: "c \<in> C"
  shows "HideProcess_loop K po lo lock start pid c s = None"
proof (cases "HideProcess_loop K po lo lock start pid c s")
  case None
  then show ?thesis .
next
  case (Some y)
  let ?P = "\<lambda>(K' :: push_lock_words) po' lo' (lock' :: addr) start' pid' c' s'
              (y :: NTSTATUS \<times> kernel).
              \<not> (po' = po \<and> lo' = lo \<and> start' = start \<and> pid' = pid \<and> s' = s \<and> c' \<in> C)"
  have "?P K po lo lock start pid c s y"
  proof (rule HideProcess_loop.raw_induct [where P = ?P, OF _ Some])
    fix f K' po' lo' lock' start' pid' c' s' y'
    assume IH: "\<And>K' po' lo' lock' start' pid' c' s' y'.
                  f K' po' lo' lock' start' pid' c' s' = Some y' \<Longrightarrow>
                  ?P K' po' lo' lock' start' pid' c' s' y'"
      and body: "(let currentPid = c' + ucast po'; currentList = c' + ucast lo'
            in if start' \<noteq> c' then
                 (if read_UINT32 s' currentPid = pid' then
                    Some (STATUS_SUCCESS,
                          ExReleasePushLockExclusive K' lock' (RemoveProcessLinks currentList s'))
                  else f K' po' lo' lock' start' pid' (Flink s' currentList - ucast lo') s')
               else Some (STATUS_UNSUCCESSFUL, ExReleasePushLockExclusive K' lock' s')) = Some y'"
    show "?P K' po' lo' lock' start' pid' c' s' y'"
    proof
      assume a: "po' = po \<and> lo' = lo \<and> start' = start \<and> pid' = pid \<and> s' = s \<and> c' \<in> C"
      with closed [of c'] have n: "c' \<noteq> start" "read_UINT32 s (c' + ucast po) \<noteq> pid"
        "Flink s (c' + ucast lo) - ucast lo \<in> C" by auto
      with a body have "f K' po lo lock' start pid (Flink s (c' + ucast lo) - ucast lo) s = Some y'"
        by (simp add: Let_def)
      from IH [OF this] n(3) show False by simp
    qed
  qed
  with c show ?thesis by simp
qed

text \<open>
  Claim C4 at an identifier no process has, 999. On the documented layout the walk
  enters the list one pointer before the control blocks and never meets the start
  pointer again: \<open>HideProcess\<close> does not return, whether the acquire sets the lock
  bit in the pointer the walk then follows or leaves the word alone. On the layout the
  walk assumes, the lock word is the forward pointer of the current entry: with the
  lock bit set in it the first step leaves the list, and \<open>HideProcess\<close> does not
  return either. (Cells outside the sample hold 0 in this model.)
\<close>

theorem HideProcess_does_not_return:
  "HideProcess lock_bit_words windows10 sample_env 999 documented_kernel = None
   \<and> HideProcess untouched_words windows10 sample_env 999 documented_kernel = None
   \<and> HideProcess lock_bit_words windows10 sample_env 999 sample_kernel = None"
proof -
  have cur: "PsGetCurrentProcess sample_env = 0x10000"
    by (simp add: PsGetCurrentProcess_def sample_env_def)
  have off: "GetActiveProcessLinksOffset windows10 (RtlGetVersion sample_env) = 0x448"
    using sample_link_offset by (simp add: RtlGetVersion_def)
  have ne: "(0x448 :: ULONG) \<noteq> STATUS_UNSUCCESSFUL" by (simp add: STATUS_UNSUCCESSFUL_def)
  let ?u = "ExAcquirePushLockExclusive untouched_words 0x10450 documented_kernel"
  let ?b = "ExAcquirePushLockExclusive lock_bit_words 0x10450 documented_kernel"
  let ?c = "ExAcquirePushLockExclusive lock_bit_words 0x10450 sample_kernel"
  have mu: "mem ?u = mem documented_kernel"
    by (simp add: ExAcquirePushLockExclusive_def untouched_words_def)
  have mb: "mem ?b = (mem documented_kernel)(0x10450 := 0x30449)"
    by (simp add: ExAcquirePushLockExclusive_def lock_bit_words_def documented_kernel_def)
  have mc: "mem ?c = (mem sample_kernel)(0x10450 := 0x20451)"
    by (simp add: ExAcquirePushLockExclusive_def lock_bit_words_def sample_kernel_def)
  have vu: "mem ?u 0x30440 = 200" "mem ?u 0x30448 = 0x10448" "mem ?u 0x10440 = 4"
    "mem ?u 0x10448 = 0x20448" "mem ?u 0x20440 = 100" "mem ?u 0x20448 = 0x30448"
    "mem ?u 0x10450 = 0x30448"
    unfolding mu by (simp_all add: documented_kernel_def)
  have vb: "mem ?b 0x30441 = 0" "mem ?b 0x30449 = 0" "mem ?b (- 8) = 0" "mem ?b 0 = 0"
    "mem ?b 0x10448 = 0x20448" "mem ?b 0x10450 = 0x30449"
    unfolding mb by (simp_all add: documented_kernel_def)
  have vc: "mem ?c 0x20449 = 0" "mem ?c 0x20451 = 0" "mem ?c (- 8) = 0" "mem ?c 0 = 0"
    "mem ?c 0x10448 = 4" "mem ?c 0x10450 = 0x20451"
    unfolding mc by (simp_all add: sample_kernel_def)
  have u: "HideProcess_loop untouched_words 0x448 0x450 0x10450 0x10000 999 0x2FFF8 ?u = None"
    by (rule HideProcess_loop_trapped [where C = "{0x2FFF8, 0xFFF8, 0x1FFF8}"])
       (auto simp: read_UINT32_def Flink_def vu)
  have b: "HideProcess_loop lock_bit_words 0x448 0x450 0x10450 0x10000 999 0x2FFF9 ?b = None"
    by (rule HideProcess_loop_trapped [where C = "{0x2FFF9, - 0x450}"])
       (auto simp: read_UINT32_def Flink_def vb)
  have c: "HideProcess_loop lock_bit_words 0x448 0x450 0x10450 0x10000 999 0x20001 ?c = None"
    by (rule HideProcess_loop_trapped [where C = "{0x20001, - 0x450}"])
       (auto simp: read_UINT32_def Flink_def vc)
  have 1: "HideProcess lock_bit_words windows10 sample_env 999 documented_kernel = None"
    using b
    by (simp add: HideProcess_def off ne cur sizeof_INT_PTR_def Let_def read_UINT32_def
        Flink_def vb)
  have 2: "HideProcess untouched_words windows10 sample_env 999 documented_kernel = None"
    using u
    by (simp add: HideProcess_def off ne cur sizeof_INT_PTR_def Let_def read_UINT32_def
        Flink_def vu)
  have 3: "HideProcess lock_bit_words windows10 sample_env 999 sample_kernel = None"
    using c
    by (simp add: HideProcess_def off ne cur sizeof_INT_PTR_def Let_def read_UINT32_def
        Flink_def vc)
  from 1 2 3 show ?thesis by simp
qed


section \<open>Properties of the signature rewrite\<close>

lemma packed_byte:
  "(ucast (push_bit 4 (ucast (t :: UCHAR) :: 32 word) OR ucast (g :: UCHAR)) :: UCHAR)
     = push_bit 4 t OR g"
  by (rule bit_word_eqI) (auto simp: bit_simps)

lemma PsLookup_ok:
  "process_by_id env pid = (status, process) \<Longrightarrow> NT_SUCCESS status \<Longrightarrow>
     PsLookupProcessByProcessId env pid s =
       (status, process, s\<lparr>events := events s @ [ReferenceTaken process]\<rparr>)"
  by (simp add: PsLookupProcessByProcessId_def)

lemma PsLookup_failed:
  "process_by_id env pid = (status, process) \<Longrightarrow> \<not> NT_SUCCESS status \<Longrightarrow>
     PsLookupProcessByProcessId env pid s = (status, process, s)"
  by (simp add: PsLookupProcessByProcessId_def)

lemma bit_load_field:
  "bit (load_field pos width a s) i \<longleftrightarrow> i < 8 \<and> i < width \<and> bit (mem s a) (pos + i)"
  by (auto simp: load_field_def bit_simps dest: bit_imp_le_length)

lemma bit_mem_store_field:
  "bit (mem (store_field pos width v a s) a) j \<longleftrightarrow>
     (if pos \<le> j \<and> j < pos + width then j < 64 \<and> bit v (j - pos) else bit (mem s a) j)"
  by (auto simp: store_field_def bit_simps dest: bit_imp_le_length)

lemma mem_store_field_other: "b \<noteq> a \<Longrightarrow> mem (store_field pos width v a s) b = mem s b"
  by (simp add: store_field_def)

lemma load_store_same:
  "pos + width \<le> 64 \<Longrightarrow> load_field pos width a (store_field pos width v a s) = take_bit width v"
  by (rule bit_word_eqI) (auto simp: bit_load_field bit_mem_store_field bit_simps)

lemma load_store_apart:
  "pos + width \<le> pos' \<or> pos' + width' \<le> pos \<Longrightarrow>
     load_field pos width a (store_field pos' width' v a s) = load_field pos width a s"
  by (rule bit_word_eqI) (auto simp: bit_load_field bit_mem_store_field)

lemma mem_ObDereferenceObject [simp]: "mem (ObDereferenceObject x s) = mem s"
  by (simp add: ObDereferenceObject_def)

lemma load_field_cong: "mem s' a = mem s a \<Longrightarrow> load_field pos width a s' = load_field pos width a s"
  by (simp add: load_field_def)

lemma SetProcessSignature_ok:
  assumes "process_by_id env (Pid ps) = (status, process)" "NT_SUCCESS status"
  shows "SetProcessSignature L W env ps s =
     (status,
      ObDereferenceObject process
        (store_field (Signer_pos L) (Signer_bits L) (SignatureSigner ps)
           (process + ucast (GetSignatureLevelOffset W (version env)))
           (store_field (Type_pos L) (Type_bits L) (SignerType ps)
              (process + ucast (GetSignatureLevelOffset W (version env)))
              (store_field 0 8 (push_bit 4 (SignerType ps) OR SignatureSigner ps)
                 (process + ucast (GetSignatureLevelOffset W (version env)))
                 (s\<lparr>events := events s @ [ReferenceTaken process]\<rparr>)))))"
  using assms
  by (simp add: SetProcessSignature_def PsLookup_ok Let_def packed_byte RtlGetVersion_def)

lemma SetProcessSignature_lookup_failed:
  assumes "process_by_id env (Pid ps) = (status, process)" "\<not> NT_SUCCESS status"
  shows "SetProcessSignature L W env ps s = (status, s)"
  using assms by (simp add: SetProcessSignature_def PsLookup_failed)

lemma bit_0x12: "bit (0x12 :: UCHAR) i \<longleftrightarrow> i = 1 \<or> i = 4"
proof -
  have "(0x12 :: UCHAR) = 2 ^ 1 OR 2 ^ 4" by simp
  then show ?thesis by (simp only: bit_or_iff bit_exp_iff) auto
qed

lemma bit_1: "bit (1 :: UCHAR) i \<longleftrightarrow> i = 0"
  by (simp add: bit_1_iff)

lemma bit_2: "bit (2 :: UCHAR) i \<longleftrightarrow> i = 1"
  by (auto simp: bit_2_iff)

lemma take_bit_1: "1 \<le> n \<Longrightarrow> take_bit n (1 :: UCHAR) = 1"
  by (rule bit_word_eqI) (auto simp: bit_simps bit_1)

lemma take_bit_2: "2 \<le> n \<Longrightarrow> take_bit n (2 :: UCHAR) = 2"
  by (rule bit_word_eqI) (auto simp: bit_simps bit_2)

text \<open>
  Claim C7. When the lookup of the target succeeds, \<open>SetProcessSignature\<close> returns
  the status of the lookup and writes, in the cell at the resolved offset and nowhere
  else, the packed byte \<open>(SignerType << 4) | SignatureSigner\<close> and the signer type and
  the signer into the protection record. This holds for every layout of the record:
  the two members of the protection record read back as the values given, cut to the
  width of their bit-fields; the packed byte reads back as computed when the protection
  record is another byte and, when it is a second view of the same byte, in every bit
  the protection record does not cover. For signer type 1 and signer 2 the packed byte
  is \<open>0x12\<close> and the protection record reads back type 1 and signer 2 as soon as
  the bit-fields have one and two bits; the byte at the offset then reads \<open>0x12\<close>
  when the protection record is another byte or views the type in the high half and
  the signer in the low half.
\<close>

theorem SetProcessSignature_writes:
  assumes "process_by_id env (Pid ps) = (status, process)" and "NT_SUCCESS status"
    and "layout_ok L"
  shows "(let (r, s') = SetProcessSignature L W env ps s;
              p = process + ucast (GetSignatureLevelOffset W (version env));
              packed = push_bit 4 (SignerType ps) OR SignatureSigner ps
          in r = status
           \<and> Protection_Type L s' p = take_bit (Type_bits L) (SignerType ps)
           \<and> Protection_Signer L s' p = take_bit (Signer_bits L) (SignatureSigner ps)
           \<and> (Protection_byte L \<noteq> 0 \<longrightarrow> SignatureLevel s' p = packed)
           \<and> (\<forall>i<8. \<not> (Protection_byte L = 0 \<and>
                         (Type_shift L \<le> i \<and> i < Type_shift L + Type_bits L \<or>
                          Signer_shift L \<le> i \<and> i < Signer_shift L + Signer_bits L)) \<longrightarrow>
                      bit (SignatureLevel s' p) i = bit packed i)
           \<and> (\<forall>a. a \<noteq> p \<longrightarrow> mem s' a = mem s a)
           \<and> (SignerType ps = 1 \<and> SignatureSigner ps = 2 \<and>
              1 \<le> Type_bits L \<and> 2 \<le> Signer_bits L \<longrightarrow>
                packed = 0x12 \<and> Protection_Type L s' p = 1 \<and> Protection_Signer L s' p = 2 \<and>
                (Protection_byte L \<noteq> 0 \<or> Type_shift L = 4 \<and> Signer_shift L = 0 \<longrightarrow>
                   SignatureLevel s' p = 0x12)))"
proof -
  define p where "p = process + ucast (GetSignatureLevelOffset W (version env))"
  define packed where "packed = push_bit 4 (SignerType ps) OR SignatureSigner ps"
  define s1 where "s1 = store_field 0 8 packed p (s\<lparr>events := events s @ [ReferenceTaken process]\<rparr>)"
  define s2 where "s2 = store_field (Type_pos L) (Type_bits L) (SignerType ps) p s1"
  define s3 where "s3 = store_field (Signer_pos L) (Signer_bits L) (SignatureSigner ps) p s2"
  define s' where "s' = ObDereferenceObject process s3"
  have res: "SetProcessSignature L W env ps s = (status, s')"
    unfolding s'_def s3_def s2_def s1_def packed_def p_def
    by (rule SetProcessSignature_ok [OF assms(1,2)])
  from assms(3) have ok: "Protection_byte L < 8" "Type_shift L + Type_bits L \<le> 8"
    "Signer_shift L + Signer_bits L \<le> 8"
    "Type_shift L + Type_bits L \<le> Signer_shift L \<or> Signer_shift L + Signer_bits L \<le> Type_shift L"
    by (simp_all add: layout_ok_def)
  have c: "load_field pos width p s' = load_field pos width p s3" for pos width
    by (rule load_field_cong) (simp add: s'_def)
  have ty: "Protection_Type L s' p = take_bit (Type_bits L) (SignerType ps)"
  proof -
    have "load_field (Type_pos L) (Type_bits L) p s3 = load_field (Type_pos L) (Type_bits L) p s2"
      unfolding s3_def using ok(4) by (intro load_store_apart) (auto simp: Type_pos_def Signer_pos_def)
    also have "\<dots> = take_bit (Type_bits L) (SignerType ps)"
      unfolding s2_def using ok(1,2) by (intro load_store_same) (simp add: Type_pos_def)
    finally show ?thesis by (simp add: Protection_Type_def c)
  qed
  have si: "Protection_Signer L s' p = take_bit (Signer_bits L) (SignatureSigner ps)"
  proof -
    have "load_field (Signer_pos L) (Signer_bits L) p s3 = take_bit (Signer_bits L) (SignatureSigner ps)"
      unfolding s3_def using ok(1,3) by (intro load_store_same) (simp add: Signer_pos_def)
    then show ?thesis by (simp add: Protection_Signer_def c)
  qed
  have raw: "bit (SignatureLevel s' p) i \<longleftrightarrow>
        (if Signer_pos L \<le> i \<and> i < Signer_pos L + Signer_bits L
         then bit (SignatureSigner ps) (i - Signer_pos L)
         else if Type_pos L \<le> i \<and> i < Type_pos L + Type_bits L
         then bit (SignerType ps) (i - Type_pos L)
         else bit packed i)" if "i < 8" for i
    using that
    by (auto simp: SignatureLevel_def c bit_load_field s3_def s2_def s1_def bit_mem_store_field
        dest: bit_imp_le_length)
  have bits: "bit (SignatureLevel s' p) i \<longleftrightarrow>
        (if Protection_byte L = 0 \<and> Signer_shift L \<le> i \<and> i < Signer_shift L + Signer_bits L
         then bit (SignatureSigner ps) (i - Signer_shift L)
         else if Protection_byte L = 0 \<and> Type_shift L \<le> i \<and> i < Type_shift L + Type_bits L
         then bit (SignerType ps) (i - Type_shift L)
         else bit packed i)" if i: "i < 8" for i
  proof (cases "Protection_byte L = 0")
    case True
    then show ?thesis
      using raw [OF i] by (simp add: Type_pos_def Signer_pos_def)
  next
    case False
    then have "\<not> Signer_pos L \<le> i" "\<not> Type_pos L \<le> i"
      using i by (simp_all add: Type_pos_def Signer_pos_def)
    with False show ?thesis
      using raw [OF i] by simp
  qed
  have sl: "SignatureLevel s' p = packed" if "Protection_byte L \<noteq> 0"
    by (rule bit_word_eqI) (use that bits in auto)
  have fr: "mem s' a = mem s a" if "a \<noteq> p" for a
    using that by (simp add: s'_def s3_def s2_def s1_def mem_store_field_other)
  have inst: "packed = 0x12 \<and> Protection_Type L s' p = 1 \<and> Protection_Signer L s' p = 2 \<and>
                (Protection_byte L \<noteq> 0 \<or> Type_shift L = 4 \<and> Signer_shift L = 0 \<longrightarrow>
                   SignatureLevel s' p = 0x12)"
    if v: "SignerType ps = 1" "SignatureSigner ps = 2" and w: "1 \<le> Type_bits L" "2 \<le> Signer_bits L"
  proof -
    have pk: "packed = 0x12" by (simp add: packed_def v)
    have "SignatureLevel s' p = 0x12"
      if "Protection_byte L \<noteq> 0 \<or> Type_shift L = 4 \<and> Signer_shift L = 0"
    proof (rule bit_word_eqI)
      fix i assume "i < LENGTH(8)"
      then have i: "i < 8" by simp
      show "bit (SignatureLevel s' p) i = bit (0x12 :: UCHAR) i"
        unfolding bits [OF i] v pk bit_0x12 bit_1 bit_2
        using that w ok i by auto
    qed
    with pk ty si v w show ?thesis by (simp add: take_bit_1 take_bit_2)
  qed
  from res ty si sl bits fr inst show ?thesis
    unfolding Let_def p_def [symmetric] packed_def [symmetric]
    by (auto simp: p_def [symmetric] packed_def [symmetric])
qed

lemma sample_request_lookup:
  "process_by_id sample_env (Pid sample_request) = (STATUS_SUCCESS, 0x20000)"
  "process_by_id sample_env_unresolved (Pid sample_request) = (STATUS_SUCCESS, 0x20000)"
  by (simp_all add: sample_env_unresolved_def sample_env_def sample_lookup_def sample_request_def)

lemma sample_layouts_ok: "layout_ok separate_layout" "layout_ok overlaid_layout"
  by (simp_all add: layout_ok_def separate_layout_def overlaid_layout_def)

text \<open>
  Claim C7 on the sample machine, signer type 1 and signer 2 for the process 100, for
  both sample layouts.
\<close>

theorem SetProcessSignature_writes_witness:
  "process_by_id sample_env (Pid sample_request) = (STATUS_SUCCESS, 0x20000)
   \<and> NT_SUCCESS STATUS_SUCCESS \<and> layout_ok separate_layout \<and> layout_ok overlaid_layout
   \<and> SignerType sample_request = 1 \<and> SignatureSigner sample_request = 2
   \<and> SignatureLevel (snd (SetProcessSignature separate_layout windows10 sample_env
                             sample_request sample_kernel)) 0x20878 = 0x12
   \<and> Protection_Type separate_layout (snd (SetProcessSignature separate_layout windows10
                             sample_env sample_request sample_kernel)) 0x20878 = 1
   \<and> Protection_Signer separate_layout (snd (SetProcessSignature separate_layout windows10
                             sample_env sample_request sample_kernel)) 0x20878 = 2
   \<and> SignatureLevel (snd (SetProcessSignature overlaid_layout windows10 sample_env
                             sample_request sample_kernel)) 0x20878 = 0x12
   \<and> Protection_Type overlaid_layout (snd (SetProcessSignature overlaid_layout windows10
                             sample_env sample_request sample_kernel)) 0x20878 = 1
   \<and> Protection_Signer overlaid_layout (snd (SetProcessSignature overlaid_layout windows10
                             sample_env sample_request sample_kernel)) 0x20878 = 2"
proof -
  have off: "(0x20000 :: addr) + ucast (GetSignatureLevelOffset windows10 (version sample_env))
               = 0x20878"
    using NT_SUCCESS_SUCCESS
    by (simp add: GetSignatureLevelOffset_def sample_env_def windows10_def)
  have v: "SignerType sample_request = 1" "SignatureSigner sample_request = 2"
    by (simp_all add: sample_request_def)
  have w: "1 \<le> Type_bits separate_layout" "2 \<le> Signer_bits separate_layout"
    "Protection_byte separate_layout \<noteq> 0"
    "1 \<le> Type_bits overlaid_layout" "2 \<le> Signer_bits overlaid_layout"
    "Type_shift overlaid_layout = 4" "Signer_shift overlaid_layout = 0"
    by (simp_all add: separate_layout_def overlaid_layout_def)
  have a: "SignatureLevel (snd (SetProcessSignature separate_layout windows10 sample_env
                             sample_request sample_kernel)) 0x20878 = 0x12
   \<and> Protection_Type separate_layout (snd (SetProcessSignature separate_layout windows10
                             sample_env sample_request sample_kernel)) 0x20878 = 1
   \<and> Protection_Signer separate_layout (snd (SetProcessSignature separate_layout windows10
                             sample_env sample_request sample_kernel)) 0x20878 = 2"
    using SetProcessSignature_writes [OF sample_request_lookup(1) NT_SUCCESS_SUCCESS
        sample_layouts_ok(1), of windows10 sample_kernel] v w
    by (auto simp: Let_def off split_beta)
  have b: "SignatureLevel (snd (SetProcessSignature overlaid_layout windows10 sample_env
                             sample_request sample_kernel)) 0x20878 = 0x12
   \<and> Protection_Type overlaid_layout (snd (SetProcessSignature overlaid_layout windows10
                             sample_env sample_request sample_kernel)) 0x20878 = 1
   \<and> Protection_Signer overlaid_layout (snd (SetProcessSignature overlaid_layout windows10
                             sample_env sample_request sample_kernel)) 0x20878 = 2"
    using SetProcessSignature_writes [OF sample_request_lookup(1) NT_SUCCESS_SUCCESS
        sample_layouts_ok(2), of windows10 sample_kernel] v w
    by (auto simp: Let_def off split_beta)
  from sample_request_lookup(1) NT_SUCCESS_SUCCESS sample_layouts_ok v a b
  show ?thesis by blast
qed

text \<open>
  Claim C8 at a failed version query: the lookup of process 100 succeeds, the offset is
  the sentinel \<open>0xC0000001\<close>, and \<open>SetProcessSignature\<close> still writes the record,
  at that distance from the control block, and returns \<open>STATUS_SUCCESS\<close>. The cell
  written holds the packed byte \<open>0x12\<close>, type 1 and signer 2 in either sample layout.
\<close>

theorem SetProcessSignature_unresolved_offset:
  "SetProcessSignature separate_layout windows10 sample_env_unresolved sample_request sample_kernel
   = (STATUS_SUCCESS,
      sample_kernel\<lparr>mem := (mem sample_kernel)(0x20000 + 0xC0000001 := 0x210012),
         events := [ReferenceTaken 0x20000, Dereference 0x20000]\<rparr>)
   \<and> SetProcessSignature overlaid_layout windows10 sample_env_unresolved sample_request
       sample_kernel
   = (STATUS_SUCCESS,
      sample_kernel\<lparr>mem := (mem sample_kernel)(0x20000 + 0xC0000001 := 0x12),
         events := [ReferenceTaken 0x20000, Dereference 0x20000]\<rparr>)"
proof -
  have off: "GetSignatureLevelOffset windows10 (version sample_env_unresolved) = 0xC0000001"
    by (simp add: GetSignatureLevelOffset_def sample_env_unresolved_def NT_SUCCESS_def
        STATUS_UNSUCCESSFUL_def)
  have e: "events sample_kernel = []" "mem sample_kernel 0xC0020001 = 0"
    by (simp_all add: sample_kernel_def)
  have v: "SignerType sample_request = 1" "SignatureSigner sample_request = 2"
    by (simp_all add: sample_request_def)
  have 1: "SetProcessSignature separate_layout windows10 sample_env_unresolved sample_request
       sample_kernel
   = (STATUS_SUCCESS,
      sample_kernel\<lparr>mem := (mem sample_kernel)(0x20000 + 0xC0000001 := 0x210012),
         events := [ReferenceTaken 0x20000, Dereference 0x20000]\<rparr>)"
    by (simp add: SetProcessSignature_ok [OF sample_request_lookup(2) NT_SUCCESS_SUCCESS] off e v
        store_field_def ObDereferenceObject_def Type_pos_def Signer_pos_def separate_layout_def
        mask_eq_exp_minus_1)
  have 2: "SetProcessSignature overlaid_layout windows10 sample_env_unresolved sample_request
       sample_kernel
   = (STATUS_SUCCESS,
      sample_kernel\<lparr>mem := (mem sample_kernel)(0x20000 + 0xC0000001 := 0x12),
         events := [ReferenceTaken 0x20000, Dereference 0x20000]\<rparr>)"
    by (simp add: SetProcessSignature_ok [OF sample_request_lookup(2) NT_SUCCESS_SUCCESS] off e v
        store_field_def ObDereferenceObject_def Type_pos_def Signer_pos_def overlaid_layout_def
        mask_eq_exp_minus_1)
  from 1 2 show ?thesis by simp
qed


section \<open>Properties of the token transplant\<close>

lemma ElevateProcess_target_failed:
  assumes "process_by_id env pid = (st, target)" "\<not> NT_SUCCESS st"
  shows "ElevateProcess W env pid s = (st, s)"
  using assms by (simp add: ElevateProcess_def PsLookup_failed)

lemma ElevateProcess_system_failed:
  assumes "process_by_id env pid = (st, target)" "NT_SUCCESS st"
    and "process_by_id env SYSTEM_PROCESS_PID = (st', privileged)" "\<not> NT_SUCCESS st'"
  shows "ElevateProcess W env pid s =
           (st', s\<lparr>events := events s @ [ReferenceTaken target, Dereference target]\<rparr>)"
  using assms
  by (simp add: ElevateProcess_def PsLookup_ok PsLookup_failed ObDereferenceObject_def)

lemma ElevateProcess_ok:
  assumes "process_by_id env pid = (st, target)" "NT_SUCCESS st"
    and "process_by_id env SYSTEM_PROCESS_PID = (st', privileged)" "NT_SUCCESS st'"
  shows "ElevateProcess W env pid s =
           (st', s\<lparr>mem := (mem s)(target + GetTokenOffset W (version env) :=
                                   mem s (privileged + GetTokenOffset W (version env))),
                   events := events s @ [ReferenceTaken target, ReferenceTaken privileged,
                                         Dereference privileged, Dereference target]\<rparr>)"
  using assms
  by (simp add: ElevateProcess_def PsLookup_ok ObDereferenceObject_def Let_def RtlGetVersion_def)

text \<open>
  Claim C9. \<open>ElevateProcess\<close> has three exits. When the lookup of the target fails
  it returns that status and nothing was taken or released. When the lookup of the
  privileged process fails it returns that status and the reference to the target was
  released. On success both references were released, the privileged one first. On
  every exit each object was released as often as a reference to it was taken.
\<close>

theorem ElevateProcess_releases:
  "(let (st, target) = process_by_id env pid;
        (st', privileged) = process_by_id env SYSTEM_PROCESS_PID;
        (r, s') = ElevateProcess W env pid s
    in (\<not> NT_SUCCESS st \<longrightarrow> r = st \<and> s' = s)
     \<and> (NT_SUCCESS st \<and> \<not> NT_SUCCESS st' \<longrightarrow>
          r = st' \<and> events s' = events s @ [ReferenceTaken target, Dereference target])
     \<and> (NT_SUCCESS st \<and> NT_SUCCESS st' \<longrightarrow>
          r = st' \<and> events s' = events s @ [ReferenceTaken target, ReferenceTaken privileged,
                                              Dereference privileged, Dereference target])
     \<and> (\<forall>object. released object (events s') + taken object (events s)
                 = taken object (events s') + released object (events s)))"
proof -
  obtain st target where t: "process_by_id env pid = (st, target)" by (cases "process_by_id env pid")
  obtain st' privileged where p: "process_by_id env SYSTEM_PROCESS_PID = (st', privileged)"
    by (cases "process_by_id env SYSTEM_PROCESS_PID")
  consider "\<not> NT_SUCCESS st" | "NT_SUCCESS st" "\<not> NT_SUCCESS st'" | "NT_SUCCESS st" "NT_SUCCESS st'"
    by blast
  then show ?thesis
  proof cases
    case 1
    then show ?thesis
      by (simp add: t p ElevateProcess_target_failed [OF t])
  next
    case 2
    then show ?thesis
      by (simp add: t p ElevateProcess_system_failed [OF t _ p] taken_def released_def)
  next
    case 3
    then show ?thesis
      by (simp add: t p ElevateProcess_ok [OF t _ p] taken_def released_def)
  qed
qed

text \<open>
  Claim C9 on the sample machines, one per exit.
\<close>

theorem ElevateProcess_releases_witness:
  "ElevateProcess windows10 sample_env 999 sample_kernel = (0xC000000B, sample_kernel)
   \<and> fst (ElevateProcess windows10 sample_env_no_system 100 sample_kernel) = 0xC000000B
   \<and> events (snd (ElevateProcess windows10 sample_env_no_system 100 sample_kernel))
       = [ReferenceTaken 0x20000, Dereference 0x20000]
   \<and> fst (ElevateProcess windows10 sample_env 100 sample_kernel) = STATUS_SUCCESS
   \<and> events (snd (ElevateProcess windows10 sample_env 100 sample_kernel))
       = [ReferenceTaken 0x20000, ReferenceTaken 0x10000, Dereference 0x10000, Dereference 0x20000]"
proof -
  have ok: "NT_SUCCESS STATUS_SUCCESS" "\<not> NT_SUCCESS 0xC000000B"
    by (simp_all add: NT_SUCCESS_def STATUS_SUCCESS_def)
  have e: "events sample_kernel = []" by (simp add: sample_kernel_def)
  have l: "process_by_id sample_env 999 = (0xC000000B, 0)"
    "process_by_id sample_env 100 = (STATUS_SUCCESS, 0x20000)"
    "process_by_id sample_env SYSTEM_PROCESS_PID = (STATUS_SUCCESS, 0x10000)"
    "process_by_id sample_env_no_system 100 = (STATUS_SUCCESS, 0x20000)"
    "process_by_id sample_env_no_system SYSTEM_PROCESS_PID = (0xC000000B, 0)"
    by (simp_all add: sample_env_def sample_env_no_system_def sample_lookup_def
        SYSTEM_PROCESS_PID_def)
  have 1: "ElevateProcess windows10 sample_env 999 sample_kernel = (0xC000000B, sample_kernel)"
    using ElevateProcess_releases [of sample_env 999 windows10 sample_kernel] l ok
    by (auto simp: Let_def e split: prod.splits)
  have 2: "fst (ElevateProcess windows10 sample_env_no_system 100 sample_kernel) = 0xC000000B
   \<and> events (snd (ElevateProcess windows10 sample_env_no_system 100 sample_kernel))
       = [ReferenceTaken 0x20000, Dereference 0x20000]"
    using ElevateProcess_releases [of sample_env_no_system 100 windows10 sample_kernel] l ok
    by (auto simp: Let_def e split: prod.splits)
  have 3: "fst (ElevateProcess windows10 sample_env 100 sample_kernel) = STATUS_SUCCESS
   \<and> events (snd (ElevateProcess windows10 sample_env 100 sample_kernel))
       = [ReferenceTaken 0x20000, ReferenceTaken 0x10000, Dereference 0x10000, Dereference 0x20000]"
    using ElevateProcess_releases [of sample_env 100 windows10 sample_kernel] l ok
    by (auto simp: Let_def e split: prod.splits)
  from 1 2 3 show ?thesis by blast
qed

text \<open>
  Claim C10. When both lookups succeed, \<open>ElevateProcess\<close> returns the successful
  status of the second lookup and copies the cell at the token offset of the privileged
  process to the target, whatever \<open>GetTokenOffset\<close> returned: after a failed version
  query that is the sentinel \<open>0xFFFFFFFFC0000001\<close>.
\<close>

theorem ElevateProcess_unchecked_offset:
  assumes "process_by_id env pid = (st, target)" and "NT_SUCCESS st"
    and "process_by_id env SYSTEM_PROCESS_PID = (st', privileged)" and "NT_SUCCESS st'"
  shows "fst (ElevateProcess W env pid s) = st'
       \<and> NT_SUCCESS (fst (ElevateProcess W env pid s))
       \<and> mem (snd (ElevateProcess W env pid s))
           = (mem s)(target + GetTokenOffset W (version env) :=
                       mem s (privileged + GetTokenOffset W (version env)))
       \<and> (\<not> NT_SUCCESS (fst (version env)) \<longrightarrow>
             GetTokenOffset W (version env) = scast STATUS_UNSUCCESSFUL
           \<and> GetTokenOffset W (version env) = 0xFFFFFFFFC0000001)"
proof -
  have "(scast STATUS_UNSUCCESSFUL :: UINT64) = 0xFFFFFFFFC0000001"
    by (simp add: STATUS_UNSUCCESSFUL_def)
  with token_offset_resolved [of W "version env"]
  have "\<not> NT_SUCCESS (fst (version env)) \<longrightarrow>
             GetTokenOffset W (version env) = scast STATUS_UNSUCCESSFUL
           \<and> GetTokenOffset W (version env) = 0xFFFFFFFFC0000001"
    by simp
  moreover have 1: "fst (ElevateProcess W env pid s) = st'"
    by (simp add: ElevateProcess_ok [OF assms])
  moreover from 1 assms(4) have "NT_SUCCESS (fst (ElevateProcess W env pid s))"
    by simp
  moreover have "mem (snd (ElevateProcess W env pid s))
           = (mem s)(target + GetTokenOffset W (version env) :=
                       mem s (privileged + GetTokenOffset W (version env)))"
    by (simp add: ElevateProcess_ok [OF assms])
  ultimately show ?thesis by blast
qed

text \<open>
  Claim C10 on the sample machine with a failed version query.
\<close>

theorem ElevateProcess_unchecked_offset_witness:
  "process_by_id sample_env_unresolved 100 = (STATUS_SUCCESS, 0x20000)
   \<and> process_by_id sample_env_unresolved SYSTEM_PROCESS_PID = (STATUS_SUCCESS, 0x10000)
   \<and> NT_SUCCESS STATUS_SUCCESS
   \<and> \<not> NT_SUCCESS (fst (version sample_env_unresolved))
   \<and> fst (ElevateProcess windows10 sample_env_unresolved 100 sample_kernel) = STATUS_SUCCESS
   \<and> mem (snd (ElevateProcess windows10 sample_env_unresolved 100 sample_kernel))
       = (mem sample_kernel)(0x20000 + 0xFFFFFFFFC0000001 :=
            mem sample_kernel (0x10000 + 0xFFFFFFFFC0000001))"
proof -
  have ok: "NT_SUCCESS STATUS_SUCCESS"
    by (simp add: NT_SUCCESS_def STATUS_SUCCESS_def)
  have l: "process_by_id sample_env_unresolved 100 = (STATUS_SUCCESS, 0x20000)"
    "process_by_id sample_env_unresolved SYSTEM_PROCESS_PID = (STATUS_SUCCESS, 0x10000)"
    by (simp_all add: sample_env_unresolved_def sample_env_def sample_lookup_def
        SYSTEM_PROCESS_PID_def)
  have f: "\<not> NT_SUCCESS (fst (version sample_env_unresolved))"
    by (simp add: sample_env_unresolved_def NT_SUCCESS_sentinel)
  note t = ElevateProcess_unchecked_offset [OF l(1) ok l(2) ok, of windows10 sample_kernel]
  from t f have g: "GetTokenOffset windows10 (version sample_env_unresolved) = 0xFFFFFFFFC0000001"
    by blast
  from t have "mem (snd (ElevateProcess windows10 sample_env_unresolved 100 sample_kernel))
       = (mem sample_kernel)
           (0x20000 + GetTokenOffset windows10 (version sample_env_unresolved) :=
              mem sample_kernel
                (0x10000 + GetTokenOffset windows10 (version sample_env_unresolved)))"
    by blast
  with g have "mem (snd (ElevateProcess windows10 sample_env_unresolved 100 sample_kernel))
       = (mem sample_kernel)(0x20000 + 0xFFFFFFFFC0000001 :=
            mem sample_kernel (0x10000 + 0xFFFFFFFFC0000001))"
    by simp
  moreover from t
  have "fst (ElevateProcess windows10 sample_env_unresolved 100 sample_kernel) = STATUS_SUCCESS"
    by blast
  ultimately have "fst (ElevateProcess windows10 sample_env_unresolved 100 sample_kernel)
         = STATUS_SUCCESS
     \<and> mem (snd (ElevateProcess windows10 sample_env_unresolved 100 sample_kernel))
       = (mem sample_kernel)(0x20000 + 0xFFFFFFFFC0000001 :=
            mem sample_kernel (0x10000 + 0xFFFFFFFFC0000001))"
    by blast
  with l ok f show ?thesis by blast
qed

end
